theory Spec2Isabelle
  imports Complex_Main
begin

section \<open>JavaScript numbers\<close>

text \<open>
  A JavaScript number is an IEEE 754 binary64 value: a finite value (the real number it
  stands for), one of the two infinities, or NaN. The sign of zero is not modelled. Every
  arithmetic operation computes the exact result and rounds it to binary64.
\<close>

datatype number = Fin real | PosInf | NegInf | NaN

subsection \<open>Rounding to binary64\<close>

text \<open>The number of digits of \<open>n\<close> in base \<open>b\<close> (0 for \<open>n = 0\<close>).\<close>

function digit_length :: "nat \<Rightarrow> nat \<Rightarrow> nat" where
  "digit_length b n = (if n = 0 \<or> b < 2 then 0 else Suc (digit_length b (n div b)))"
  by pat_completeness auto
termination
  by (relation "measure (\<lambda>(b, n). n)") auto

declare digit_length.simps [simp del]

definition int_pow :: "real \<Rightarrow> int \<Rightarrow> real" where
  "int_pow b k = (if 0 \<le> k then b ^ nat k else 1 / b ^ nat (- k))"

text \<open>
  For \<open>a > 0\<close>, the integer \<open>n\<close> with \<open>b ^ (n - 1) \<le> a < b ^ n\<close>: the number of digits
  of the integer part when \<open>a \<ge> 1\<close>, and otherwise counted from the reciprocal.
\<close>

definition magnitude :: "nat \<Rightarrow> real \<Rightarrow> int" where
  "magnitude b a =
     (if 1 \<le> a then int (digit_length b (nat \<lfloor>a\<rfloor>))
      else 1 - int (digit_length b (nat \<lceil>1 / a\<rceil> - 1)))"

definition round_half_even :: "real \<Rightarrow> int" where
  "round_half_even r =
     (let f = \<lfloor>r\<rfloor>; d = r - of_int f
      in if d < 1 / 2 then f else if 1 / 2 < d then f + 1
         else if even f then f else f + 1)"

text \<open>
  The binary64 value nearest to a real, a tie going to the even significand: 53 bits of
  significand, the exponent at least -1022 (below it the values are subnormal), and
  overflow to an infinity from \<open>2 ^ 1024 - 2 ^ 970\<close> on.
\<close>

definition signed_inf :: "bool \<Rightarrow> number" where
  "signed_inf positive = (if positive then PosInf else NegInf)"

definition round64 :: "real \<Rightarrow> number" where
  "round64 x =
     (if x = 0 then Fin 0
      else
        let a = \<bar>x\<bar>;
            e = max (magnitude 2 a - 1) (- 1022);
            ulp = int_pow 2 (e - 52);
            m = round_half_even (a / ulp)
        in if 1023 < e \<or> (e = 1023 \<and> 2 ^ 53 \<le> m) then signed_inf (0 < x)
           else Fin (sgn x * (of_int m * ulp)))"

subsection \<open>Arithmetic\<close>

fun Number_isFinite :: "number \<Rightarrow> bool" where
  "Number_isFinite (Fin x) = True"
| "Number_isFinite PosInf = False"
| "Number_isFinite NegInf = False"
| "Number_isFinite NaN = False"

fun num_neg :: "number \<Rightarrow> number" where
  "num_neg (Fin x) = Fin (- x)"
| "num_neg PosInf = NegInf"
| "num_neg NegInf = PosInf"
| "num_neg NaN = NaN"

fun num_add :: "number \<Rightarrow> number \<Rightarrow> number" where
  "num_add (Fin a) (Fin b) = round64 (a + b)"
| "num_add NaN y = NaN"
| "num_add x NaN = NaN"
| "num_add PosInf NegInf = NaN"
| "num_add NegInf PosInf = NaN"
| "num_add PosInf y = PosInf"
| "num_add NegInf y = NegInf"
| "num_add (Fin a) y = y"


fun num_mul :: "number \<Rightarrow> number \<Rightarrow> number" where
  "num_mul (Fin a) (Fin b) = round64 (a * b)"
| "num_mul NaN y = NaN"
| "num_mul x NaN = NaN"
| "num_mul (Fin a) PosInf = (if a = 0 then NaN else signed_inf (0 < a))"
| "num_mul (Fin a) NegInf = (if a = 0 then NaN else signed_inf (a < 0))"
| "num_mul PosInf (Fin b) = (if b = 0 then NaN else signed_inf (0 < b))"
| "num_mul NegInf (Fin b) = (if b = 0 then NaN else signed_inf (b < 0))"
| "num_mul PosInf PosInf = PosInf"
| "num_mul PosInf NegInf = NegInf"
| "num_mul NegInf PosInf = NegInf"
| "num_mul NegInf NegInf = PosInf"

text \<open>Division; a zero divisor is taken as positive zero.\<close>

fun num_div :: "number \<Rightarrow> number \<Rightarrow> number" where
  "num_div (Fin a) (Fin b) =
     (if b = 0 then (if a = 0 then NaN else signed_inf (0 < a)) else round64 (a / b))"
| "num_div NaN y = NaN"
| "num_div x NaN = NaN"
| "num_div (Fin a) PosInf = Fin 0"
| "num_div (Fin a) NegInf = Fin 0"
| "num_div PosInf (Fin b) = signed_inf (0 \<le> b)"
| "num_div NegInf (Fin b) = signed_inf (b < 0)"
| "num_div PosInf y = NaN"
| "num_div NegInf y = NaN"

fun num_le :: "number \<Rightarrow> number \<Rightarrow> bool" where
  "num_le (Fin a) (Fin b) = (a \<le> b)"
| "num_le NaN y = False"
| "num_le x NaN = False"
| "num_le NegInf y = True"
| "num_le x PosInf = True"
| "num_le PosInf y = False"
| "num_le x NegInf = False"


definition num_gt :: "number \<Rightarrow> number \<Rightarrow> bool" where
  "num_gt x y = (num_le y x \<and> x \<noteq> y)"


text \<open>
  \<open>Math.round\<close>: the nearest integer, a tie going towards plus infinity. The result is
  exact: a binary64 value of magnitude \<open>2 ^ 52\<close> or more is an integer already.
\<close>

fun Math_round :: "number \<Rightarrow> number" where
  "Math_round (Fin a) = Fin (of_int \<lfloor>a + 1 / 2\<rfloor>)"
| "Math_round PosInf = PosInf"
| "Math_round NegInf = NegInf"
| "Math_round NaN = NaN"

definition max2 :: "number \<Rightarrow> number \<Rightarrow> number" where
  "max2 x y = (if x = NaN \<or> y = NaN then NaN else if num_le x y then y else x)"


text \<open>\<open>Math.max(...xs)\<close> and \<open>Math.min(...xs)\<close>.\<close>

definition Math_max :: "number list \<Rightarrow> number" where
  "Math_max xs = foldl max2 NegInf xs"


section \<open>Exceptions\<close>

text \<open>
  A computation that may throw returns \<open>Inl\<close> of the exception or \<open>Inr\<close> of its value;
  \<open>andThen\<close> runs the next step on a value and passes an exception on.
\<close>

datatype js_error = TypeError

definition andThen :: "js_error + 'a \<Rightarrow> ('a \<Rightarrow> js_error + 'b) \<Rightarrow> js_error + 'b" where
  "andThen m f = (case m of Inl e \<Rightarrow> Inl e | Inr x \<Rightarrow> f x)"

section \<open>JavaScript values\<close>

text \<open>
  The values a parsed JSON response can hold, and \<open>undefined\<close>. An object is the list of
  its own enumerable properties in the order \<open>Object.entries\<close> lists them. The keys of an
  object are distinct; a lookup takes the first entry of a key, and nothing below relies on
  the keys being distinct. A string is a list of characters (code units below 256).
\<close>

datatype jsval =
    JUndefined
  | JNull
  | JBool bool
  | JNum number
  | JStr string
  | JArr "jsval list"
  | JObj "(string \<times> jsval) list"

datatype jstype = TUndefined | TObject | TBoolean | TNumber | TString

fun typeof :: "jsval \<Rightarrow> jstype" where
  "typeof JUndefined = TUndefined"
| "typeof JNull = TObject"
| "typeof (JBool b) = TBoolean"
| "typeof (JNum n) = TNumber"
| "typeof (JStr s) = TString"
| "typeof (JArr xs) = TObject"
| "typeof (JObj kvs) = TObject"

text \<open>\<open>Boolean(v)\<close>, the truthiness of a value.\<close>

fun Boolean :: "jsval \<Rightarrow> bool" where
  "Boolean JUndefined = False"
| "Boolean JNull = False"
| "Boolean (JBool b) = b"
| "Boolean (JNum n) = (n \<noteq> NaN \<and> n \<noteq> Fin 0)"
| "Boolean (JStr s) = (s \<noteq> [])"
| "Boolean (JArr xs) = True"
| "Boolean (JObj kvs) = True"

fun Array_isArray :: "jsval \<Rightarrow> bool" where
  "Array_isArray (JArr xs) = True"
| "Array_isArray v = False"

fun nullish :: "jsval \<Rightarrow> bool" where
  "nullish JUndefined = True"
| "nullish JNull = True"
| "nullish v = False"

text \<open>\<open>a ?? b\<close>\<close>

definition coalesce :: "jsval \<Rightarrow> jsval \<Rightarrow> jsval" where
  "coalesce a b = (if nullish a then b else a)"

subsection \<open>Strings\<close>

definition digit_char :: "nat \<Rightarrow> char" where
  "digit_char d = ''0123456789'' ! (d mod 10)"

function nat_to_dec :: "nat \<Rightarrow> string" where
  "nat_to_dec n = (if n < 10 then [digit_char n] else nat_to_dec (n div 10) @ [digit_char n])"
  by pat_completeness auto
termination
  by (relation "measure (\<lambda>n. n)") auto

declare nat_to_dec.simps [simp del]

text \<open>White space and line terminators, as \<open>String.prototype.trim\<close> strips them.\<close>

definition is_ws :: "char \<Rightarrow> bool" where
  "is_ws c = (c \<in> set [CHR 0x09, CHR 0x0A, CHR 0x0B, CHR 0x0C, CHR 0x0D, CHR 0x20, CHR 0xA0])"

definition trim :: "string \<Rightarrow> string" where
  "trim s = rev (dropWhile is_ws (rev (dropWhile is_ws s)))"

subsection \<open>Conversions between numbers and strings\<close>

text \<open>
  These are built-ins of the language, not code of the repository.

  \<open>String(x)\<close> for a number prints the shortest decimal that reads back as \<open>x\<close>: the
  least number \<open>k\<close> of digits with an integer \<open>s\<close> of \<open>k\<close> digits and an integer \<open>n\<close> such
  that \<open>s * 10 ^ (n - k)\<close> rounds to \<open>x\<close>, the nearest such \<open>s\<close> when there are two. At most
  17 digits are needed.
\<close>

definition reads_back :: "real \<Rightarrow> nat \<Rightarrow> int \<Rightarrow> nat \<Rightarrow> bool" where
  "reads_back a k n s =
     (10 ^ (k - 1) \<le> s \<and> s < 10 ^ k \<and> round64 (real s * int_pow 10 (n - int k)) = Fin a)"

text \<open>
  The search for \<open>(k, s, n)\<close> from \<open>k\<close> digits on, for \<open>a > 0\<close>. The two candidates of \<open>k\<close>
  digits are the neighbours of \<open>a\<close>; when the upper one is the next power of ten, it is
  that power written with one digit.
\<close>

fun shortest_digits :: "nat \<Rightarrow> nat \<Rightarrow> real \<Rightarrow> nat \<times> nat \<times> int" where
  "shortest_digits 0 k a = (k, nat \<lfloor>a * int_pow 10 (int k - magnitude 10 a)\<rfloor>, magnitude 10 a)"
| "shortest_digits (Suc fuel) k a =
     (let n = magnitude 10 a;
          lo = nat \<lfloor>a * int_pow 10 (int k - n)\<rfloor>;
          hi = lo + 1;
          lo_ok = reads_back a k n lo;
          hi_ok = (if hi = 10 ^ k then reads_back a 1 (n + 1) 1 else reads_back a k n hi);
          hi_res = (if hi = 10 ^ k then (1, 1, n + 1) else (k, hi, n));
          gap_lo = a - real lo * int_pow 10 (n - int k);
          gap_hi = real hi * int_pow 10 (n - int k) - a
      in if lo_ok \<and> hi_ok
         then (if gap_lo < gap_hi \<or> (gap_lo = gap_hi \<and> even lo) then (k, lo, n) else hi_res)
         else if lo_ok then (k, lo, n)
         else if hi_ok then hi_res
         else shortest_digits fuel (Suc k) a)"

text \<open>
  The digits laid out: as an integer or a decimal fraction when \<open>-6 < n \<le> 21\<close>, in
  exponent notation otherwise.
\<close>

definition positive_to_string :: "real \<Rightarrow> string" where
  "positive_to_string a =
     (case shortest_digits 17 1 a of
        (k, s, n) \<Rightarrow>
          let ds = nat_to_dec s;
              e = n - 1;
              es = (if e < 0 then ''-'' else ''+'') @ nat_to_dec (nat \<bar>e\<bar>)
          in if int k \<le> n \<and> n \<le> 21 then ds @ replicate (nat (n - int k)) (CHR ''0'')
             else if 0 < n \<and> n \<le> 21 then take (nat n) ds @ ''.'' @ drop (nat n) ds
             else if - 6 < n \<and> n \<le> 0 then ''0.'' @ replicate (nat (- n)) (CHR ''0'') @ ds
             else if k = 1 then ds @ ''e'' @ es
             else hd ds # ''.'' @ tl ds @ ''e'' @ es)"

fun NumberToString :: "number \<Rightarrow> string" where
  "NumberToString NaN = ''NaN''"
| "NumberToString PosInf = ''Infinity''"
| "NumberToString NegInf = ''-Infinity''"
| "NumberToString (Fin x) =
     (if x = 0 then ''0''
      else if x < 0 then ''-'' @ positive_to_string (- x)
      else positive_to_string x)"

text \<open>
  \<open>Number(s)\<close> for a string reads a literal exactly and rounds its value to binary64.
\<close>

definition digit_table :: "(char \<times> nat) list" where
  "digit_table =
     [(CHR ''0'', 0), (CHR ''1'', 1), (CHR ''2'', 2), (CHR ''3'', 3), (CHR ''4'', 4),
      (CHR ''5'', 5), (CHR ''6'', 6), (CHR ''7'', 7), (CHR ''8'', 8), (CHR ''9'', 9),
      (CHR ''a'', 10), (CHR ''b'', 11), (CHR ''c'', 12), (CHR ''d'', 13), (CHR ''e'', 14),
      (CHR ''f'', 15), (CHR ''A'', 10), (CHR ''B'', 11), (CHR ''C'', 12), (CHR ''D'', 13),
      (CHR ''E'', 14), (CHR ''F'', 15)]"

definition is_radix_digit :: "nat \<Rightarrow> char \<Rightarrow> bool" where
  "is_radix_digit base c = (case map_of digit_table c of None \<Rightarrow> False | Some d \<Rightarrow> d < base)"

definition radix_val :: "nat \<Rightarrow> string \<Rightarrow> nat" where
  "radix_val base ds = foldl (\<lambda>a c. base * a + (case map_of digit_table c of Some d \<Rightarrow> d | None \<Rightarrow> 0)) 0 ds"

text \<open>\<open>0x\<close>, \<open>0o\<close> and \<open>0b\<close> literals.\<close>

definition parse_nondecimal :: "string \<Rightarrow> real option" where
  "parse_nondecimal t =
     (case t of
        z # x # ds \<Rightarrow>
          (let base = (if x \<in> set ''xX'' then 16 else if x \<in> set ''oO'' then 8
                       else if x \<in> set ''bB'' then 2 else 0)
           in if z = CHR ''0'' \<and> base \<noteq> 0 \<and> ds \<noteq> [] \<and> list_all (is_radix_digit base) ds
              then Some (real (radix_val base ds)) else None)
      | _ \<Rightarrow> None)"

text \<open>An unsigned decimal literal: digits, an optional fraction, an optional exponent.\<close>

definition parse_decimal :: "string \<Rightarrow> real option" where
  "parse_decimal r =
     (let ip = takeWhile (is_radix_digit 10) r;
          r1 = dropWhile (is_radix_digit 10) r;
          fp = (case r1 of c # q \<Rightarrow> if c = CHR ''.'' then takeWhile (is_radix_digit 10) q else []
                | [] \<Rightarrow> []);
          r2 = (case r1 of c # q \<Rightarrow> if c = CHR ''.'' then dropWhile (is_radix_digit 10) q else r1
                | [] \<Rightarrow> []);
          mant = real (radix_val 10 (ip @ fp)) / 10 ^ length fp
      in if ip = [] \<and> fp = [] then None
         else (case r2 of
                 [] \<Rightarrow> Some mant
               | c # r3 \<Rightarrow>
                   if c \<in> set ''eE'' then
                     (let neg = (case r3 of s # q \<Rightarrow> s = CHR ''-'' | [] \<Rightarrow> False);
                          r4 = (case r3 of s # q \<Rightarrow> if s \<in> set ''+-'' then q else r3 | [] \<Rightarrow> [])
                      in if r4 \<noteq> [] \<and> list_all (is_radix_digit 10) r4
                         then Some (if neg then mant / 10 ^ radix_val 10 r4
                                    else mant * 10 ^ radix_val 10 r4)
                         else None)
                   else None))"

definition parse_unsigned :: "string \<Rightarrow> number" where
  "parse_unsigned r =
     (if r = ''Infinity'' then PosInf
      else case parse_decimal r of Some x \<Rightarrow> round64 x | None \<Rightarrow> NaN)"

text \<open>\<open>Number(s)\<close> for a string \<open>s\<close>.\<close>

definition StringToNumber :: "string \<Rightarrow> number" where
  "StringToNumber s =
     (let t = trim s
      in if t = [] then Fin 0
         else case parse_nondecimal t of
                Some x \<Rightarrow> round64 x
              | None \<Rightarrow>
                  (case t of
                     c # r \<Rightarrow> if c = CHR ''+'' then parse_unsigned r
                              else if c = CHR ''-'' then num_neg (parse_unsigned r)
                              else parse_unsigned t
                   | [] \<Rightarrow> Fin 0))"

subsection \<open>Conversion of values\<close>

text \<open>
  \<open>String(v)\<close>. An array prints its elements joined by commas, \<open>null\<close> and
  \<open>undefined\<close> elements as the empty string. A plain object prints through the inherited
  \<open>toString\<close>; an own member of that name (a JSON value, so not callable) hides it, and
  the conversion throws.
\<close>

fun ToString :: "jsval \<Rightarrow> js_error + string"
  and join_elems :: "jsval list \<Rightarrow> js_error + string" where
  "ToString JUndefined = Inr ''undefined''"
| "ToString JNull = Inr ''null''"
| "ToString (JBool b) = Inr (if b then ''true'' else ''false'')"
| "ToString (JNum n) = Inr (NumberToString n)"
| "ToString (JStr s) = Inr s"
| "ToString (JArr xs) = join_elems xs"
| "ToString (JObj kvs) =
     (if ''toString'' \<in> set (map fst kvs) then Inl TypeError else Inr ''[object Object]'')"
| "join_elems [] = Inr []"
| "join_elems (x # xs) =
     (case (if nullish x then Inr [] else ToString x) of
        Inl e \<Rightarrow> Inl e
      | Inr s \<Rightarrow>
          (if xs = [] then Inr s
           else case join_elems xs of Inl e \<Rightarrow> Inl e | Inr t \<Rightarrow> Inr (s @ '','' @ t)))"

text \<open>\<open>Number(v)\<close>: an object or array converts through its string.\<close>

fun Number :: "jsval \<Rightarrow> js_error + number" where
  "Number JUndefined = Inr NaN"
| "Number JNull = Inr (Fin 0)"
| "Number (JBool b) = Inr (Fin (if b then 1 else 0))"
| "Number (JNum n) = Inr n"
| "Number (JStr s) = Inr (StringToNumber s)"
| "Number (JArr xs) = andThen (ToString (JArr xs)) (\<lambda>s. Inr (StringToNumber s))"
| "Number (JObj kvs) = andThen (ToString (JObj kvs)) (\<lambda>s. Inr (StringToNumber s))"

subsection \<open>Property access\<close>

text \<open>
  The own enumerable properties of a value, as \<open>Object.entries\<close> lists them. Members
  inherited from a prototype are left out: none of the fixed keys the code reads is the
  name of one, and a member read under a computed key (a criterion name) is a function or
  an object, which \<open>Number\<close> maps to NaN, the outcome of an absent key at both places
  that read one.
\<close>

fun Object_entries :: "jsval \<Rightarrow> (string \<times> jsval) list" where
  "Object_entries (JObj kvs) = kvs"
| "Object_entries (JArr xs) = zip (map nat_to_dec [0..<length xs]) xs"
| "Object_entries (JStr s) = zip (map nat_to_dec [0..<length s]) (map (\<lambda>c. JStr [c]) s)"
| "Object_entries v = []"

definition Object_keys :: "jsval \<Rightarrow> string list" where
  "Object_keys v = map fst (Object_entries v)"

text \<open>The \<open>length\<close> of an array or string, its one own property that is not enumerable.\<close>

fun length_prop :: "jsval \<Rightarrow> jsval option" where
  "length_prop (JArr xs) = Some (JNum (Fin (real (length xs))))"
| "length_prop (JStr s) = Some (JNum (Fin (real (length s))))"
| "length_prop v = None"

definition own_property :: "jsval \<Rightarrow> string \<Rightarrow> jsval option" where
  "own_property v k =
     (case map_of (Object_entries v) k of
        Some x \<Rightarrow> Some x
      | None \<Rightarrow> if k = ''length'' then length_prop v else None)"

text \<open>\<open>v[k]\<close> and \<open>v.k\<close>: reading a property of \<open>null\<close> or \<open>undefined\<close> throws.\<close>

definition property :: "jsval \<Rightarrow> string \<Rightarrow> jsval" where
  "property v k = (case own_property v k of Some x \<Rightarrow> x | None \<Rightarrow> JUndefined)"

definition get_prop :: "jsval \<Rightarrow> string \<Rightarrow> js_error + jsval" where
  "get_prop v k = (if nullish v then Inl TypeError else Inr (property v k))"

fun is_object :: "jsval \<Rightarrow> bool" where
  "is_object (JArr xs) = True"
| "is_object (JObj kvs) = True"
| "is_object v = False"

text \<open>\<open>k in v\<close>: throws unless \<open>v\<close> is an object.\<close>

definition js_in :: "string \<Rightarrow> jsval \<Rightarrow> js_error + bool" where
  "js_in k v = (if is_object v then Inr (own_property v k \<noteq> None) else Inl TypeError)"

section \<open>Safe helpers (src/lib/grading.ts)\<close>

fun pick :: "jsval \<Rightarrow> string list \<Rightarrow> js_error + jsval" where
  "pick obj [] = Inr JUndefined"
| "pick obj (k # keys) =
     andThen (js_in k obj) (\<lambda>present. if present then get_prop obj k else pick obj keys)"

definition toNum :: "jsval \<Rightarrow> number \<Rightarrow> js_error + number" where
  "toNum v def = andThen (Number v) (\<lambda>n. Inr (if Number_isFinite n then n else def))"

fun toStr :: "jsval \<Rightarrow> string option" where
  "toStr (JStr s) = Some s"
| "toStr (JNum n) = Some (NumberToString n)"
| "toStr (JBool b) = Some (if b then ''true'' else ''false'')"
| "toStr v = None"

section \<open>Canonical types (src/types/grading.ts)\<close>

text \<open>An optional field is an option; \<open>null\<close> and \<open>undefined\<close> are both \<open>None\<close>.\<close>

record RubricScore =
  criterion :: string
  score :: number
  weight :: "number option"
  comment :: "string option"

text \<open>
  \<open>weights_used\<close> holds the raw value of the payload as it is (the code casts it without
  looking at its members), or \<open>JUndefined\<close>.
\<close>

record GradeResponse =
  overall_score :: number
  overall_comment :: string
  rubric_scores :: "RubricScore list option"
  reference_answer :: "string option"
  reference_answer_generated :: "bool option"
  weighted_overall :: "number option"
  weights_used :: jsval

record ItemGradeResult =
  item_overall_score :: number
  item_weighted_overall :: "number option"
  feedback :: string
  item_rubric_scores :: "RubricScore list option"

record BatchItem =
  item_id :: string
  item_file :: string
  ok :: bool
  result :: "ItemGradeResult option"
  error :: "string option"

record BatchSummary =
  avg :: number
  smin :: number
  smax :: number
  stdev :: number
  pass_rate :: number

record report_files_t =
  txt_file :: "string option"
  csv_file :: "string option"

record BatchGradeResponse =
  count :: number
  success_count :: number
  fail_count :: number
  rubric_used :: "string list"
  batch_weights_used :: jsval
  batch_reference_answer :: string
  batch_reference_answer_generated :: bool
  items :: "BatchItem list"
  summary :: "BatchSummary option"
  report_files :: "report_files_t option"

section \<open>Normalization (src/App.tsx)\<close>

definition name_aliases :: "string list" where
  "name_aliases = [''criterion'', ''item'', ''name'', ''title'', ''dimension'', ''aspect'', ''label'']"

definition weight_aliases :: "string list" where
  "weight_aliases = [''weight'', ''w'', ''weighting'']"

definition score_aliases :: "string list" where
  "score_aliases = [''score'', ''points'', ''value'']"

definition comment_aliases :: "string list" where
  "comment_aliases = [''comment'', ''feedback'', ''reason'', ''explanation'', ''notes'']"

text \<open>\<open>a || b\<close> on strings.\<close>

definition str_or :: "string \<Rightarrow> string \<Rightarrow> string" where
  "str_or a b = (if a \<noteq> [] then a else b)"

text \<open>\<open>toStr(v) ?? ""\<close>\<close>

definition toStr_or_empty :: "jsval \<Rightarrow> string" where
  "toStr_or_empty v = (case toStr v of Some s \<Rightarrow> s | None \<Rightarrow> [])"

text \<open>
  The fallback loop of \<open>normItem\<close>: the first entry whose value is a string and whose key
  is not \<open>comment\<close> ends the loop, with its value trimmed.
\<close>

fun fallback_loop :: "(string \<times> jsval) list \<Rightarrow> string" where
  "fallback_loop [] = []"
| "fallback_loop ((k, v) # rest) =
     (if typeof v = TString \<and> k \<noteq> ''comment'' then trim (toStr_or_empty v)
      else fallback_loop rest)"

text \<open>\<open>raw.weights_used && typeof raw.weights_used === "object" ? raw.weights_used : undefined\<close>\<close>

definition object_or_undefined :: "jsval \<Rightarrow> jsval" where
  "object_or_undefined v = (if Boolean v \<and> typeof v = TObject then v else JUndefined)"

text \<open>\<open>typeof v === "number" ? v : undefined\<close>\<close>

fun number_or_undefined :: "jsval \<Rightarrow> number option" where
  "number_or_undefined (JNum n) = Some n"
| "number_or_undefined v = None"

text \<open>\<open>xs.map((it, idx) => f(it, idx))\<close>, the first exception ending the map.\<close>

fun map_idx :: "('a \<Rightarrow> nat \<Rightarrow> js_error + 'b) \<Rightarrow> 'a list \<Rightarrow> nat \<Rightarrow> js_error + 'b list" where
  "map_idx f [] i = Inr []"
| "map_idx f (x # xs) i =
     andThen (f x i) (\<lambda>y. andThen (map_idx f xs (Suc i)) (\<lambda>ys. Inr (y # ys)))"

fun elems :: "jsval \<Rightarrow> jsval list" where
  "elems (JArr xs) = xs"
| "elems v = []"

text \<open>
  The name of an item, as \<open>normItem\<close> computes it from \<open>fromBackendRaw\<close> (the value
  \<open>pick\<close> found under the name aliases), the user's names and the item itself.
\<close>

definition item_name :: "string list \<Rightarrow> jsval \<Rightarrow> nat \<Rightarrow> jsval \<Rightarrow> string" where
  "item_name userRubricNames it idx fromBackendRaw =
     (let fromBackend = (case toStr fromBackendRaw of Some s \<Rightarrow> trim s | None \<Rightarrow> []);
          fromUser = trim (if idx < length userRubricNames then userRubricNames ! idx else []);
          fallback = (if fromBackend = [] \<and> fromUser = []
                      then fallback_loop (Object_entries it) else [])
      in str_or fromBackend (str_or fromUser
           (str_or fallback (''Item '' @ nat_to_dec (idx + 1)))))"

text \<open>
  The override of an item's weight by the weight map, for the criterion \<open>name\<close>:
  \<open>if (weightsUsedMap && criterion in weightsUsedMap) { const w = toNum(weightsUsedMap[criterion], NaN);
  if (Number.isFinite(w)) weight = w; }\<close>
\<close>

definition override_weight :: "jsval \<Rightarrow> string \<Rightarrow> number \<Rightarrow> js_error + number" where
  "override_weight weightsUsedMap name weight0 =
     andThen (if Boolean weightsUsedMap then js_in name weightsUsedMap else Inr False)
       (\<lambda>present.
          if present
          then andThen (get_prop weightsUsedMap name) (\<lambda>v.
               andThen (toNum v NaN) (\<lambda>w.
                 Inr (if Number_isFinite w then w else weight0)))
          else Inr weight0)"

text \<open>
  \<open>normItem\<close>, the closure of \<open>normalizeGradeResponse\<close>, with the two variables it
  captures (\<open>weightsUsedMap\<close>, \<open>userRubricNames\<close>) as parameters.
\<close>

definition normItem :: "jsval \<Rightarrow> string list \<Rightarrow> jsval \<Rightarrow> nat \<Rightarrow> js_error + RubricScore" where
  "normItem weightsUsedMap userRubricNames it idx =
     andThen (pick it name_aliases) (\<lambda>fromBackendRaw.
     andThen (pick it weight_aliases) (\<lambda>weightRaw.
     andThen (toNum weightRaw (Fin 1)) (\<lambda>weight0.
     andThen (override_weight weightsUsedMap
                (item_name userRubricNames it idx fromBackendRaw) weight0) (\<lambda>weight.
     andThen (pick it score_aliases) (\<lambda>scoreRaw.
     andThen (toNum scoreRaw (Fin 0)) (\<lambda>score.
     andThen (pick it comment_aliases) (\<lambda>commentRaw.
       Inr \<lparr>criterion = item_name userRubricNames it idx fromBackendRaw,
            score = score, weight = Some weight,
            comment = Some (toStr_or_empty commentRaw)\<rparr>)))))))"

text \<open>
  The first statement reads \<open>raw.weights_used\<close>, which throws when \<open>raw\<close> is \<open>null\<close> or
  \<open>undefined\<close>; after it, a property read of \<open>raw\<close> cannot throw.
\<close>

definition normalizeGradeResponse :: "jsval \<Rightarrow> string list \<Rightarrow> js_error + GradeResponse" where
  "normalizeGradeResponse raw userRubricNames =
     (if nullish raw then Inl TypeError
      else
        let weightsUsedMap = object_or_undefined (property raw ''weights_used'');
            itemsSrc =
              (if Array_isArray (property raw ''rubric_scores'') then elems (property raw ''rubric_scores'')
               else if Array_isArray (property raw ''rubric'') then elems (property raw ''rubric'')
               else if Array_isArray (property raw ''details'') then elems (property raw ''details'')
               else [])
        in
        andThen (toNum (coalesce (property raw ''overall_score'')
                         (coalesce (property raw ''total_score'') (property raw ''score''))) (Fin 0))
          (\<lambda>overall.
        andThen (pick raw [''feedback'', ''overall_comment'', ''summary'', ''comment''])
          (\<lambda>commentRaw.
        andThen (map_idx (normItem weightsUsedMap userRubricNames) itemsSrc 0) (\<lambda>scores.
        andThen (pick raw [''reference_answer'', ''reference'', ''ref_answer'']) (\<lambda>refRaw.
          Inr \<lparr>overall_score = overall,
               overall_comment = toStr_or_empty commentRaw,
               rubric_scores = Some scores,
               reference_answer = toStr refRaw,
               reference_answer_generated =
                 Some (Boolean (coalesce (property raw ''reference_answer_generated'')
                                  (property raw ''generated_reference''))),
               weighted_overall = number_or_undefined (property raw ''weighted_overall''),
               weights_used = weightsUsedMap\<rparr>)))))"

text \<open>\<open>normRubricItem\<close>, the closure of \<open>normalizeBatchResponse\<close>: the same body.\<close>

definition normRubricItem :: "jsval \<Rightarrow> string list \<Rightarrow> jsval \<Rightarrow> nat \<Rightarrow> js_error + RubricScore" where
  "normRubricItem weightsUsedMapGlobal userRubricNames it idx =
     normItem weightsUsedMapGlobal userRubricNames it idx"

text \<open>
  The callback of \<open>rawItems.map\<close>. Its first statement reads \<open>it.id\<close>, which throws when
  \<open>it\<close> is \<open>null\<close> or \<open>undefined\<close>.
\<close>

definition normBatchItem :: "jsval \<Rightarrow> string list \<Rightarrow> jsval \<Rightarrow> js_error + BatchItem" where
  "normBatchItem weightsUsedMapGlobal userRubricNames it =
     (if nullish it then Inl TypeError
      else
        let id = toStr_or_empty (property it ''id'');
            file = toStr_or_empty (property it ''file'');
            ok = Boolean (property it ''ok'');
            r = property it ''result''
        in
        andThen
          (if ok \<and> Boolean r \<and> typeof r = TObject then
             andThen
               (if Array_isArray (property r ''rubric_scores'')
                then andThen (map_idx (normRubricItem weightsUsedMapGlobal userRubricNames)
                                (elems (property r ''rubric_scores'')) 0)
                       (\<lambda>scores. Inr (Some scores))
                else Inr None) (\<lambda>rubricScores.
             andThen (toNum (property r ''overall_score'') (Fin 0)) (\<lambda>overall.
             andThen (pick r [''feedback'', ''overall_comment'', ''comment'']) (\<lambda>feedbackRaw.
               Inr (Some \<lparr>item_overall_score = overall,
                          item_weighted_overall =
                            number_or_undefined (property r ''weighted_overall''),
                          feedback = toStr_or_empty feedbackRaw,
                          item_rubric_scores = rubricScores\<rparr>))))
           else Inr None) (\<lambda>resultItem.
          let errorText =
                (if \<not> ok \<and> toStr_or_empty (property it ''error'') \<noteq> []
                 then toStr (property it ''error'') else None)
          in Inr \<lparr>item_id = id, item_file = file, ok = ok, result = resultItem,
                  error = errorText\<rparr>))"

text \<open>\<open>xs.map(f)\<close> for a callback that may throw.\<close>

fun map_throw :: "('a \<Rightarrow> js_error + 'b) \<Rightarrow> 'a list \<Rightarrow> js_error + 'b list" where
  "map_throw f [] = Inr []"
| "map_throw f (x # xs) =
     andThen (f x) (\<lambda>y. andThen (map_throw f xs) (\<lambda>ys. Inr (y # ys)))"

text \<open>The summary of \<open>normalizeBatchResponse\<close>, from \<open>raw.summary\<close>.\<close>

definition normSummary :: "jsval \<Rightarrow> js_error + BatchSummary option" where
  "normSummary s =
     (if Boolean s \<and> typeof s = TObject then
        andThen (toNum (property s ''avg'') (Fin 0)) (\<lambda>a.
        andThen (toNum (property s ''min'') (Fin 0)) (\<lambda>mn.
        andThen (toNum (property s ''max'') (Fin 0)) (\<lambda>mx.
        andThen (toNum (property s ''stdev'') (Fin 0)) (\<lambda>sd.
        andThen (toNum (property s ''pass_rate'') (Fin 0)) (\<lambda>pr.
          Inr (Some \<lparr>avg = a, smin = mn, smax = mx, stdev = sd,
                     pass_rate = num_mul pr (Fin 100)\<rparr>))))))
      else Inr None)"

text \<open>\<open>xs.map((x) => toStr(x)).filter(Boolean)\<close>\<close>

fun nonempty_strings :: "jsval list \<Rightarrow> string list" where
  "nonempty_strings [] = []"
| "nonempty_strings (x # xs) =
     (if toStr_or_empty x \<noteq> [] then toStr_or_empty x # nonempty_strings xs
      else nonempty_strings xs)"

definition normalizeBatchResponse :: "jsval \<Rightarrow> string list \<Rightarrow> js_error + BatchGradeResponse" where
  "normalizeBatchResponse raw userRubricNames =
     (if nullish raw then Inl TypeError
      else
        let rawItems = (if Array_isArray (property raw ''items'')
                        then elems (property raw ''items'') else []);
            weightsUsedMapGlobal = object_or_undefined (property raw ''weights_used'')
        in
        andThen (map_throw (normBatchItem weightsUsedMapGlobal userRubricNames) rawItems)
          (\<lambda>its.
        andThen (normSummary (property raw ''summary'')) (\<lambda>sm.
        let rubricUsed = (if Array_isArray (property raw ''rubric_used'')
                          then nonempty_strings (elems (property raw ''rubric_used'')) else []);
            rf = property raw ''report_files'';
            reportFiles = (if Boolean rf \<and> typeof rf = TObject
                           then Some \<lparr>txt_file = toStr (property rf ''txt''),
                                      csv_file = toStr (property rf ''csv'')\<rparr>
                           else None)
        in
        andThen (toNum (property raw ''count'') (Fin (real (length rawItems)))) (\<lambda>cnt.
        andThen (toNum (property raw ''success_count'') (Fin 0)) (\<lambda>succ.
        andThen (toNum (property raw ''fail_count'') (Fin 0)) (\<lambda>fails.
          Inr \<lparr>count = cnt, success_count = succ, fail_count = fails,
               rubric_used = rubricUsed,
               batch_weights_used = weightsUsedMapGlobal,
               batch_reference_answer = toStr_or_empty (property raw ''reference_answer''),
               batch_reference_answer_generated =
                 Boolean (property raw ''reference_answer_generated''),
               items = its, summary = sm, report_files = reportFiles\<rparr>))))))"

section \<open>Recomputing the overall score (src/components/SingleGradingCard.tsx)\<close>

text \<open>\<open>!!weightsUsed && Object.keys(weightsUsed).length > 0\<close>\<close>

definition useWeights :: "jsval \<Rightarrow> bool" where
  "useWeights weightsUsed = (Boolean weightsUsed \<and> Object_keys weightsUsed \<noteq> [])"

text \<open>
  The weight \<open>w\<close> of one pass of the loop:
  \<open>rawW = useWeights ? Number(weightsUsed[s.criterion] ?? 1) : 1\<close>, then
  \<open>w = Number.isFinite(rawW) && rawW > 0 ? rawW : 1\<close>.
  The field \<open>s.weight\<close> is not read.
\<close>

definition loop_weight :: "jsval \<Rightarrow> RubricScore \<Rightarrow> js_error + number" where
  "loop_weight weightsUsed s =
     andThen (if useWeights weightsUsed
              then andThen (get_prop weightsUsed (criterion s))
                     (\<lambda>v. Number (coalesce v (JNum (Fin 1))))
              else Inr (Fin 1)) (\<lambda>rawW.
       Inr (if Number_isFinite rawW \<and> num_gt rawW (Fin 0) then rawW else Fin 1))"

text \<open>\<open>Number.isFinite(s.score) ? s.score : 0\<close>\<close>

definition finite_score :: "RubricScore \<Rightarrow> number" where
  "finite_score s = (if Number_isFinite (score s) then score s else Fin 0)"

text \<open>The loop over \<open>scores\<close>, with the state \<open>(sumW, sumScoreW)\<close>.\<close>

fun weight_loop :: "jsval \<Rightarrow> RubricScore list \<Rightarrow> number \<times> number \<Rightarrow> js_error + number \<times> number" where
  "weight_loop weightsUsed [] acc = Inr acc"
| "weight_loop weightsUsed (s # ss) (sumW, sumScoreW) =
     andThen (loop_weight weightsUsed s) (\<lambda>w.
       weight_loop weightsUsed ss
         (num_add sumW w, num_add sumScoreW (num_mul (finite_score s) w)))"

definition recomputeOverallManual :: "RubricScore list \<Rightarrow> jsval \<Rightarrow> js_error + number" where
  "recomputeOverallManual scores weightsUsed =
     (if scores = [] then Inr (Fin 0)
      else
        andThen (weight_loop weightsUsed scores (Fin 0, Fin 0)) (\<lambda>(sumW, sumScoreW).
          if sumW = Fin 0 then Inr (Fin 0)
          else
            let avg = num_div sumScoreW sumW;
                maxScore = Math_max (map finite_score scores);
                scale = (if num_le maxScore (Fin 1) then Fin 100 else Fin 1);
                overall = num_mul avg scale
            in Inr (num_div (Math_round (num_mul overall (Fin 10))) (Fin 10))))"

section \<open>Recomputing a batch (src/components/BatchGradingCard.tsx)\<close>

text \<open>The same computation, written a second time in the batch card.\<close>

definition recomputeOverallManualForItem :: "RubricScore list \<Rightarrow> jsval \<Rightarrow> js_error + number" where
  "recomputeOverallManualForItem scores weightsUsed =
     (if scores = [] then Inr (Fin 0)
      else
        andThen (weight_loop weightsUsed scores (Fin 0, Fin 0)) (\<lambda>(sumW, sumScoreW).
          if sumW = Fin 0 then Inr (Fin 0)
          else
            let avg = num_div sumScoreW sumW;
                maxScore = Math_max (map finite_score scores);
                scale = (if num_le maxScore (Fin 1) then Fin 100 else Fin 1)
            in Inr (num_div (Math_round (num_mul (num_mul avg scale) (Fin 10))) (Fin 10))))"





section \<open>Vocabulary of the statements\<close>

text \<open>The real value of a finite number (0 for the others).\<close>

fun fin_val :: "number \<Rightarrow> real" where
  "fin_val (Fin x) = x"
| "fin_val PosInf = 0"
| "fin_val NegInf = 0"
| "fin_val NaN = 0"

text \<open>The maximum of the scores, a score that is not finite counting as 0.\<close>

definition max_score :: "RubricScore list \<Rightarrow> real" where
  "max_score scores = Max (set (map (\<lambda>s. fin_val (finite_score s)) scores))"

text \<open>Rounding to the nearest integer with a tie going away from zero, as the specification words it.\<close>

definition round_half_away_from_zero :: "real \<Rightarrow> real" where
  "round_half_away_from_zero x = sgn x * of_int \<lfloor>\<bar>x\<bar> + 1 / 2\<rfloor>"


text \<open>
  A canonical result read as a raw payload again: the object \<open>normalizeGradeResponse\<close>
  built, with its fields in the order of the object literal, an absent field holding
  \<open>undefined\<close>.
\<close>

definition opt_num :: "number option \<Rightarrow> jsval" where
  "opt_num x = (case x of Some n \<Rightarrow> JNum n | None \<Rightarrow> JUndefined)"

definition opt_str :: "string option \<Rightarrow> jsval" where
  "opt_str x = (case x of Some s \<Rightarrow> JStr s | None \<Rightarrow> JUndefined)"

definition opt_bool :: "bool option \<Rightarrow> jsval" where
  "opt_bool x = (case x of Some b \<Rightarrow> JBool b | None \<Rightarrow> JUndefined)"

definition rubric_as_loose :: "RubricScore \<Rightarrow> jsval" where
  "rubric_as_loose s =
     JObj [(''criterion'', JStr (criterion s)), (''score'', JNum (score s)),
           (''weight'', opt_num (weight s)), (''comment'', opt_str (comment s))]"

definition grade_as_loose :: "GradeResponse \<Rightarrow> jsval" where
  "grade_as_loose g =
     JObj [(''overall_score'', JNum (overall_score g)),
           (''overall_comment'', JStr (overall_comment g)),
           (''rubric_scores'',
              (case rubric_scores g of Some rs \<Rightarrow> JArr (map rubric_as_loose rs)
               | None \<Rightarrow> JUndefined)),
           (''reference_answer'', opt_str (reference_answer g)),
           (''reference_answer_generated'', opt_bool (reference_answer_generated g)),
           (''weighted_overall'', opt_num (weighted_overall g)),
           (''weights_used'', weights_used g)]"

section \<open>Properties\<close>

subsection \<open>Auxiliary facts\<close>

text \<open>
  The magnitude places a positive real between two consecutive powers of the base, which
  is what the rounding to binary64 and the printing of numbers take from it.
\<close>

lemma digit_length_bounds:
  assumes "2 \<le> b" and "0 < n"
  shows "b ^ (digit_length b n - 1) \<le> n \<and> n < b ^ digit_length b n"
  using assms
proof (induction b n rule: digit_length.induct)
  case (1 b n)
  show ?case
  proof (cases "n div b = 0")
    case True
    then have "n < b" using "1.prems" by (simp add: div_eq_0_iff)
    moreover have "digit_length b n = 1"
      using "1.prems" True by (simp add: digit_length.simps [of b n] digit_length.simps [of b 0])
    ultimately show ?thesis using "1.prems" by simp
  next
    case False
    then have pos: "0 < n div b" by simp
    have nb: "\<not> (n = 0 \<or> b < 2)" using "1.prems" by simp
    from "1.IH" [OF nb "1.prems"(1) pos]
    have lo: "b ^ (digit_length b (n div b) - 1) \<le> n div b"
      and hi: "n div b < b ^ digit_length b (n div b)" by simp_all
    have d: "digit_length b n = Suc (digit_length b (n div b))"
      using nb by (simp add: digit_length.simps [of b n])
    have dpos: "0 < digit_length b (n div b)"
      using pos "1.prems"(1) by (simp add: digit_length.simps [of b "n div b"])
    have "b ^ digit_length b (n div b) = b * b ^ (digit_length b (n div b) - 1)"
      using dpos by (cases "digit_length b (n div b)") simp_all
    also have "\<dots> \<le> b * (n div b)" using lo by simp
    also have "\<dots> \<le> n" by simp
    finally have 1: "b ^ (digit_length b n - 1) \<le> n" by (simp add: d)
    have "0 < b" using "1.prems"(1) by simp
    then have "n < b + b * (n div b)" by (rule dividend_less_times_div)
    then have "n < b * (n div b + 1)" by simp
    also have "\<dots> \<le> b * b ^ digit_length b (n div b)"
    proof (rule mult_le_mono2)
      show "n div b + 1 \<le> b ^ digit_length b (n div b)" using hi by simp
    qed
    finally have 2: "n < b ^ digit_length b n" by (simp add: d)
    from 1 2 show ?thesis by simp
  qed
qed

lemma digit_length_pos: "2 \<le> b \<Longrightarrow> 0 < n \<Longrightarrow> 0 < digit_length b n"
  by (subst digit_length.simps) simp

lemma magnitude_bounds:
  assumes "2 \<le> b" and "0 < a"
  shows "int_pow (real b) (magnitude b a - 1) \<le> a \<and> a < int_pow (real b) (magnitude b a)"
proof (cases "1 \<le> a")
  case True
  define n where "n = nat \<lfloor>a\<rfloor>"
  have n: "0 < n" "real n \<le> a" "a < real n + 1"
    using True by (simp_all add: n_def)
  from digit_length_bounds [OF assms(1) n(1)]
  have lo: "b ^ (digit_length b n - 1) \<le> n" and hi: "n < b ^ digit_length b n" by simp_all
  have dpos: "0 < digit_length b n"
    using assms(1) n(1) by (rule digit_length_pos)
  have m: "magnitude b a = int (digit_length b n)"
    using True by (simp add: magnitude_def n_def)
  have "real (b ^ (digit_length b n - 1)) \<le> real n" using lo by (rule of_nat_mono)
  then have "real b ^ (digit_length b n - 1) \<le> real n" by (simp only: of_nat_power)
  then have 1: "real b ^ (digit_length b n - 1) \<le> a" using n(2) by linarith
  have "n + 1 \<le> b ^ digit_length b n" using hi by simp
  then have "real (n + 1) \<le> real (b ^ digit_length b n)" by (rule of_nat_mono)
  then have "real n + 1 \<le> real b ^ digit_length b n"
    by (simp only: of_nat_add of_nat_1 of_nat_power)
  then have 2: "a < real b ^ digit_length b n" using n(3) by linarith
  have e: "nat (int (digit_length b n) - 1) = digit_length b n - 1" by simp
  from 1 2 dpos show ?thesis
    by (simp add: m int_pow_def e)
next
  case False
  define y where "y = 1 / a"
  define c where "c = nat \<lceil>y\<rceil>"
  define t where "t = digit_length b (c - 1)"
  have y: "1 < y" using False assms(2) by (simp add: y_def)
  have c: "y \<le> real c" "real c - 1 < y" "2 \<le> c"
    using y by (simp_all add: c_def) linarith+
  then have c1: "0 < c - 1" by simp
  from digit_length_bounds [OF assms(1) c1]
  have lo: "b ^ (t - 1) \<le> c - 1" and hi: "c - 1 < b ^ t" by (simp_all add: t_def)
  have tpos: "0 < t"
    unfolding t_def using assms(1) c1 by (rule digit_length_pos)
  have m: "magnitude b a = 1 - int t"
    using False by (simp add: magnitude_def t_def c_def y_def)
  have bpos: "0 < real b" using assms(1) by simp
  have "c \<le> b ^ t" using hi c(3) by simp
  then have "real c \<le> real (b ^ t)" by (rule of_nat_mono)
  then have "real c \<le> real b ^ t" by (simp only: of_nat_power)
  then have "y \<le> real b ^ t" using c(1) by linarith
  then have 1: "1 / real b ^ t \<le> a"
    using assms(2) bpos by (simp add: y_def field_simps)
  have "real (b ^ (t - 1)) \<le> real (c - 1)" using lo by (rule of_nat_mono)
  moreover have "real (c - 1) = real c - 1" using c(3) by (simp add: of_nat_diff)
  ultimately have "real b ^ (t - 1) \<le> real c - 1" by (simp only: of_nat_power)
  then have "real b ^ (t - 1) < y" using c(2) by linarith
  then have 2: "a < 1 / real b ^ (t - 1)"
    using assms(2) bpos by (simp add: y_def field_simps)
  have e: "nat (int t - 1) = t - 1" "nat (int t) = t" by simp_all
  show ?thesis
  proof (cases "t = 1")
    case True
    with 1 2 show ?thesis by (simp add: m int_pow_def)
  next
    case False
    with tpos have "1 < t" by simp
    with 1 2 show ?thesis by (simp add: m int_pow_def e nat_diff_distrib)
  qed
qed

lemma andThen_Inr [simp]: "andThen (Inr x) f = f x"
  by (simp add: andThen_def)

lemma andThen_Inl [simp]: "andThen (Inl e) f = Inl e"
  by (simp add: andThen_def)

lemma andThen_eq_Inr: "andThen m f = Inr r \<longleftrightarrow> (\<exists>x. m = Inr x \<and> f x = Inr r)"
  by (cases m) simp_all

lemma loop_weight_positive:
  assumes "loop_weight wu s = Inr w"
  shows "\<exists>x. w = Fin x \<and> 0 < x"
proof -
  from assms obtain rawW where
    w: "w = (if Number_isFinite rawW \<and> num_gt rawW (Fin 0) then rawW else Fin 1)"
    by (auto simp: loop_weight_def andThen_eq_Inr)
  show ?thesis
    by (cases rawW) (auto simp: w num_gt_def)
qed

lemma finite_score_Fin: "finite_score s = Fin (fin_val (finite_score s))"
  by (cases "score s") (simp_all add: finite_score_def)

lemma weight_loop_fold:
  assumes "map_throw (loop_weight wu) scores = Inr ws"
  shows "weight_loop wu scores (a, b) =
           Inr (foldl num_add a ws,
                foldl num_add b (map2 (\<lambda>s w. num_mul (finite_score s) w) scores ws))"
  using assms
proof (induction scores arbitrary: ws a b)
  case Nil
  then show ?case by simp
next
  case (Cons s ss)
  from Cons.prems obtain w ws' where
    w: "loop_weight wu s = Inr w" and ws': "map_throw (loop_weight wu) ss = Inr ws'"
    and ws: "ws = w # ws'"
    by (auto simp: andThen_eq_Inr)
  show ?case
    using Cons.IH [OF ws', of "num_add a w" "num_add b (num_mul (finite_score s) w)"]
    by (simp add: w ws)
qed

lemma foldl_max2_Fin: "foldl max2 (Fin a) (map Fin xs) = Fin (fold max xs a)"
  by (induction xs arbitrary: a) (simp_all add: max2_def max_def)

lemma Math_max_finite_scores:
  assumes "scores \<noteq> []"
  shows "Math_max (map finite_score scores) = Fin (max_score scores)"
proof -
  obtain s ss where sc: "scores = s # ss" using assms by (cases scores) auto
  have m: "map finite_score scores = map Fin (map (\<lambda>s. fin_val (finite_score s)) scores)"
    using finite_score_Fin by simp
  have "Math_max (map finite_score scores) =
        foldl max2 (Fin (fin_val (finite_score s))) (map Fin (map (\<lambda>s. fin_val (finite_score s)) ss))"
    unfolding m by (simp add: sc Math_max_def max2_def)
  also have "\<dots> = Fin (fold max (map (\<lambda>s. fin_val (finite_score s)) ss) (fin_val (finite_score s)))"
    by (rule foldl_max2_Fin)
  also have "\<dots> = Fin (Max (set (fin_val (finite_score s) # map (\<lambda>s. fin_val (finite_score s)) ss)))"
    by (simp only: Max.set_eq_fold)
  also have "\<dots> = Fin (max_score scores)"
    by (simp add: max_score_def sc)
  finally show ?thesis .
qed

lemma loop_weight_weight_update: "loop_weight wu (s\<lparr>weight := w'\<rparr>) = loop_weight wu s"
  by (simp add: loop_weight_def)

lemma finite_score_weight_update: "finite_score (s\<lparr>weight := w'\<rparr>) = finite_score s"
  by (simp add: finite_score_def)

lemma weight_loop_weight_update:
  "weight_loop wu (map (\<lambda>s. s\<lparr>weight := g s\<rparr>) scores) acc = weight_loop wu scores acc"
proof (induction scores arbitrary: acc)
  case Nil
  show ?case by simp
next
  case (Cons s ss)
  obtain a b where acc: "acc = (a, b)" by (cases acc)
  show ?case
    by (simp add: acc Cons.IH loop_weight_weight_update finite_score_weight_update)
qed


lemma round_half_away_nonneg:
  "0 \<le> x \<Longrightarrow> round_half_away_from_zero x = of_int \<lfloor>x + 1 / 2\<rfloor>"
  by (cases "x = 0") (simp_all add: round_half_away_from_zero_def)


subsection \<open>The arithmetic at work\<close>

text \<open>
  A result of magnitude \<open>2 ^ 1024\<close> or more overflows to an infinity; the sum of
  \<open>1e308\<close> and \<open>1e308\<close> is \<open>Infinity\<close>.
\<close>

lemma round64_overflow:
  assumes "2 ^ 1024 \<le> \<bar>x\<bar>"
  shows "round64 x = signed_inf (0 < x)"
proof -
  have pos: "0 < \<bar>x\<bar>" using assms by (smt (verit) zero_less_power)
  from magnitude_bounds [of 2 "\<bar>x\<bar>"] pos
  have "\<bar>x\<bar> < int_pow 2 (magnitude 2 \<bar>x\<bar>)" by simp
  with assms have lt: "(2::real) ^ 1024 < int_pow 2 (magnitude 2 \<bar>x\<bar>)" by linarith
  have "1024 < magnitude 2 \<bar>x\<bar>"
  proof (rule ccontr)
    assume "\<not> 1024 < magnitude 2 \<bar>x\<bar>"
    then have le: "magnitude 2 \<bar>x\<bar> \<le> 1024" by simp
    have "int_pow 2 (magnitude 2 \<bar>x\<bar>) \<le> (2::real) ^ 1024"
    proof (cases "0 \<le> magnitude 2 \<bar>x\<bar>")
      case True
      then have "nat (magnitude 2 \<bar>x\<bar>) \<le> 1024" using le by simp
      then have "(2::real) ^ nat (magnitude 2 \<bar>x\<bar>) \<le> 2 ^ 1024"
        by (intro power_increasing) simp_all
      with True show ?thesis by (simp add: int_pow_def)
    next
      case False
      have "1 / (2::real) ^ nat (- magnitude 2 \<bar>x\<bar>) \<le> 1" by simp
      also have "\<dots> \<le> (2::real) ^ 1024" by (rule one_le_power) simp
      finally show ?thesis using False by (simp add: int_pow_def)
    qed
    with lt show False by simp
  qed
  then have e: "1023 < max (magnitude 2 \<bar>x\<bar> - 1) (- 1022)" by simp
  have nz: "x \<noteq> 0" using pos by auto
  show ?thesis
    unfolding round64_def Let_def using e nz by (simp only: if_False if_True simp_thms)
qed

lemma sum_overflows: "num_add (Fin (10 ^ 308)) (Fin (10 ^ 308)) = PosInf"
proof -
  have "(2::real) ^ 1024 \<le> \<bar>10 ^ 308 + 10 ^ 308\<bar>" by simp
  from round64_overflow [OF this] show ?thesis by (simp add: signed_inf_def)
qed

text \<open>
  The literal \<open>0.07\<close> reads as the binary64 value nearest to \<open>7 / 100\<close>, and its product
  with 100 is not 7 but the next binary64 value above it, printed \<open>7.000000000000001\<close>.
\<close>

lemma literal_rounds: "StringToNumber ''0.07'' = round64 (7 / 100)"
  by code_simp

lemma product_rounds: "num_mul (round64 (7 / 100)) (Fin 100) = Fin (7 + 1 / 2 ^ 50)"
  by code_simp

text \<open>
  The binary64 value of \<open>85.35\<close> lies below \<open>85.35\<close>, yet its product with 10 rounds to
  \<open>853.5\<close>, a tie: the aggregate of the single score \<open>85.35\<close> is \<open>85.4\<close>.
\<close>

lemma aggregate_of_binary64_tie:
  "recomputeOverallManual
     [\<lparr>criterion = ''a'', score = round64 (8535 / 100), weight = None, comment = None\<rparr>]
     JUndefined = Inr (round64 (854 / 10))"
  by code_simp

subsection \<open>Aggregate of the two-criterion example\<close>

text \<open>
  Claim C1, as stated, fails: for the criteria \<open>[{score: 1, weight: 2}, {score: 0, weight: 1}]\<close>
  and no weight map, the recompute functions do not return 66.7 (neither the decimal nor
  its binary64 value).
\<close>

theorem C1_aggregate_counterexample:
  "recomputeOverallManual
     [\<lparr>criterion = ''a'', score = Fin 1, weight = Some (Fin 2), comment = None\<rparr>,
      \<lparr>criterion = ''b'', score = Fin 0, weight = Some (Fin 1), comment = None\<rparr>]
     JUndefined \<noteq> Inr (Fin (667 / 10)) \<and>
   recomputeOverallManualForItem
     [\<lparr>criterion = ''a'', score = Fin 1, weight = Some (Fin 2), comment = None\<rparr>,
      \<lparr>criterion = ''b'', score = Fin 0, weight = Some (Fin 1), comment = None\<rparr>]
     JUndefined \<noteq> Inr (Fin (667 / 10)) \<and>
   recomputeOverallManual
     [\<lparr>criterion = ''a'', score = Fin 1, weight = Some (Fin 2), comment = None\<rparr>,
      \<lparr>criterion = ''b'', score = Fin 0, weight = Some (Fin 1), comment = None\<rparr>]
     JUndefined \<noteq> Inr (round64 (667 / 10)) \<and>
   recomputeOverallManualForItem
     [\<lparr>criterion = ''a'', score = Fin 1, weight = Some (Fin 2), comment = None\<rparr>,
      \<lparr>criterion = ''b'', score = Fin 0, weight = Some (Fin 1), comment = None\<rparr>]
     JUndefined \<noteq> Inr (round64 (667 / 10))"
  by code_simp

text \<open>
  Claim C1, amended: for two criteria with scores 1 and 0, whatever their names, comments
  and per-item weights (2 and 1 among them), and no weight map, both recompute functions
  return 50: every criterion weighs 1, the mean is \<open>(1 + 0) / 2 = 0.5\<close>, and it is scaled by
  100 because the maximum score 1 is at most 1.
\<close>

theorem C1_aggregate_is_50:
  "recomputeOverallManual
     [\<lparr>criterion = c1, score = Fin 1, weight = w1, comment = m1\<rparr>,
      \<lparr>criterion = c2, score = Fin 0, weight = w2, comment = m2\<rparr>] JUndefined = Inr (Fin 50) \<and>
   recomputeOverallManualForItem
     [\<lparr>criterion = c1, score = Fin 1, weight = w1, comment = m1\<rparr>,
      \<lparr>criterion = c2, score = Fin 0, weight = w2, comment = m2\<rparr>] JUndefined = Inr (Fin 50)"
  by code_simp

subsection \<open>Entries that are not objects\<close>

text \<open>
  Claim C4: normalization of a payload whose \<open>rubric_scores\<close> or \<open>items\<close> array holds
  \<open>null\<close> does not return a canonical result; it throws a TypeError.
\<close>

theorem C4_null_entry_throws:
  "normalizeGradeResponse (JObj [(''rubric_scores'', JArr [JNull])]) [] = Inl TypeError \<and>
   normalizeBatchResponse (JObj [(''items'', JArr [JNull])]) [] = Inl TypeError"
  by code_simp

subsection \<open>Effective weight\<close>

text \<open>
  Claim C2, as stated, fails: with a weight map supplied that has no entry for the
  criterion, the effective weight is 1 and not the criterion's own weight 5; the aggregate
  of scores 10 and 0 is their plain mean 5.
\<close>

theorem C2_counterexample:
  "useWeights (JObj [(''A'', JNum (Fin 3))]) \<and>
   own_property (JObj [(''A'', JNum (Fin 3))]) ''B'' = None \<and>
   weight \<lparr>criterion = ''B'', score = Fin 10, weight = Some (Fin 5), comment = None\<rparr> = Some (Fin 5) \<and>
   loop_weight (JObj [(''A'', JNum (Fin 3))])
     \<lparr>criterion = ''B'', score = Fin 10, weight = Some (Fin 5), comment = None\<rparr> = Inr (Fin 1) \<and>
   recomputeOverallManual
     [\<lparr>criterion = ''B'', score = Fin 10, weight = Some (Fin 5), comment = None\<rparr>,
      \<lparr>criterion = ''C'', score = Fin 0, weight = Some (Fin 1), comment = None\<rparr>]
     (JObj [(''A'', JNum (Fin 3))]) = Inr (Fin 5)"
  by code_simp

text \<open>
  Claim C2, amended: the effective weight of a criterion never depends on its own per-item
  weight. It is 1 when no map is in use (none supplied, or an empty one). When a map is in
  use it is the map's entry for the criterion, converted to a number, when that is finite
  and positive, and 1 otherwise. Whenever the loop yields a weight, it is finite and
  positive. The aggregate is the same whatever the per-item weights are.
\<close>

theorem C2_effective_weight:
  "loop_weight wu (s\<lparr>weight := w'\<rparr>) = loop_weight wu s \<and>
   (\<not> useWeights wu \<longrightarrow> loop_weight wu s = Inr (Fin 1)) \<and>
   (useWeights wu \<longrightarrow>
      (\<forall>n. Number (property wu (criterion s)) = Inr n \<longrightarrow>
           loop_weight wu s = Inr (if Number_isFinite n \<and> num_gt n (Fin 0) then n else Fin 1))) \<and>
   (\<forall>w. loop_weight wu s = Inr w \<longrightarrow> Number_isFinite w \<and> num_gt w (Fin 0)) \<and>
   recomputeOverallManual (map (\<lambda>s. s\<lparr>weight := g s\<rparr>) scores) wu =
     recomputeOverallManual scores wu \<and>
   recomputeOverallManualForItem (map (\<lambda>s. s\<lparr>weight := g s\<rparr>) scores) wu =
     recomputeOverallManualForItem scores wu"
proof -
  have 1: "loop_weight wu (s\<lparr>weight := w'\<rparr>) = loop_weight wu s"
    by (rule loop_weight_weight_update)
  have 2: "loop_weight wu s = Inr (Fin 1)" if "\<not> useWeights wu"
    using that by (simp add: loop_weight_def num_gt_def)
  have 3: "loop_weight wu s = Inr (if Number_isFinite n \<and> num_gt n (Fin 0) then n else Fin 1)"
    if u: "useWeights wu" and n: "Number (property wu (criterion s)) = Inr n" for n
  proof -
    from u have nn: "\<not> nullish wu"
      by (cases wu) (simp_all add: useWeights_def)
    show ?thesis
    proof (cases "nullish (property wu (criterion s))")
      case True
      then have "n = NaN \<or> n = Fin 0"
        using n by (cases "property wu (criterion s)") auto
      then show ?thesis
        using u nn True by (auto simp: loop_weight_def get_prop_def coalesce_def num_gt_def)
    next
      case False
      then show ?thesis
        using u nn n by (simp add: loop_weight_def get_prop_def coalesce_def)
    qed
  qed
  have 4: "Number_isFinite w \<and> num_gt w (Fin 0)" if "loop_weight wu s = Inr w" for w
    using loop_weight_positive [OF that] by (auto simp: num_gt_def)
  have m: "map finite_score (map (\<lambda>s. s\<lparr>weight := g s\<rparr>) scores) = map finite_score scores"
    by (simp add: finite_score_weight_update)
  have 5: "recomputeOverallManual (map (\<lambda>s. s\<lparr>weight := g s\<rparr>) scores) wu =
     recomputeOverallManual scores wu"
    unfolding recomputeOverallManual_def weight_loop_weight_update m by simp
  have 6: "recomputeOverallManualForItem (map (\<lambda>s. s\<lparr>weight := g s\<rparr>) scores) wu =
     recomputeOverallManualForItem scores wu"
    unfolding recomputeOverallManualForItem_def weight_loop_weight_update m by simp
  from 1 2 3 4 5 6 show ?thesis by blast
qed

text \<open>Witness for C2: the map \<open>{A: 3}\<close> and no map, for a criterion \<open>A\<close> of own weight 5.\<close>

theorem C2_effective_weight_witness:
  "useWeights (JObj [(''A'', JNum (Fin 3))]) \<and>
   Number (property (JObj [(''A'', JNum (Fin 3))]) ''A'') = Inr (Fin 3) \<and>
   loop_weight (JObj [(''A'', JNum (Fin 3))])
     \<lparr>criterion = ''A'', score = Fin 10, weight = Some (Fin 5), comment = None\<rparr> = Inr (Fin 3) \<and>
   \<not> useWeights JUndefined \<and>
   loop_weight JUndefined
     \<lparr>criterion = ''A'', score = Fin 10, weight = Some (Fin 5), comment = None\<rparr> = Inr (Fin 1)"
proof -
  have u: "useWeights (JObj [(''A'', JNum (Fin 3))])"
    by code_simp
  have n: "Number (property (JObj [(''A'', JNum (Fin 3))])
             (criterion \<lparr>criterion = ''A'', score = Fin 10, weight = Some (Fin 5), comment = None\<rparr>)) = Inr (Fin 3)"
    by code_simp
  have v: "\<not> useWeights JUndefined"
    by code_simp
  note a = C2_effective_weight [where wu = "JObj [(''A'', JNum (Fin 3))]" and w' = None
      and s = "\<lparr>criterion = ''A'', score = Fin 10, weight = Some (Fin 5), comment = None\<rparr>"
      and g = "\<lambda>s. None" and scores = "[]"]
  note b = C2_effective_weight [where wu = JUndefined and w' = None
      and s = "\<lparr>criterion = ''A'', score = Fin 10, weight = Some (Fin 5), comment = None\<rparr>"
      and g = "\<lambda>s. None" and scores = "[]"]
  from a u n have 1: "loop_weight (JObj [(''A'', JNum (Fin 3))])
     \<lparr>criterion = ''A'', score = Fin 10, weight = Some (Fin 5), comment = None\<rparr> = Inr (Fin 3)"
    by (simp add: num_gt_def)
  from b v have 2: "loop_weight JUndefined
     \<lparr>criterion = ''A'', score = Fin 10, weight = Some (Fin 5), comment = None\<rparr> = Inr (Fin 1)"
    by blast
  from u n v 1 2 show ?thesis by simp
qed


subsection \<open>Scale and rounding\<close>

text \<open>
  Claim C7, as stated, fails at a negative tie: for the scores 4 and -4.5 the weighted mean
  is -0.25, ten times it is -2.5, and the functions return -0.2 (its binary64 value), where
  rounding half away from zero gives -3 and so -0.3.
\<close>

theorem C7_rounding_counterexample:
  "recomputeOverallManual
     [\<lparr>criterion = ''a'', score = Fin 4, weight = None, comment = None\<rparr>,
      \<lparr>criterion = ''b'', score = Fin (- 45 / 10), weight = None, comment = None\<rparr>]
     JUndefined = Inr (round64 (- 2 / 10)) \<and>
   recomputeOverallManualForItem
     [\<lparr>criterion = ''a'', score = Fin 4, weight = None, comment = None\<rparr>,
      \<lparr>criterion = ''b'', score = Fin (- 45 / 10), weight = None, comment = None\<rparr>]
     JUndefined = Inr (round64 (- 2 / 10)) \<and>
   round_half_away_from_zero ((4 + (- 45 / 10)) / 2 * 10) = - 3 \<and>
   round64 (- 2 / 10) \<noteq> round64 (- 3 / 10)"
  by code_simp

text \<open>
  Claim C7, amended: for a non-empty list whose weights the loop computes, the result is
  the weighted mean (the running sum of the products of score and weight, divided by the
  running sum of the weights, every operation in binary64; 0 when the sum of the weights
  is 0), multiplied by 100 exactly when the maximum score (a score that is not finite
  counting as 0) is at most 1, then multiplied by 10, rounded by \<open>Math.round\<close> and divided
  by 10. Both copies of the function agree. \<open>Math.round\<close> gives the nearest integer, a
  tie going towards plus infinity; for an argument that is not negative this is rounding
  half away from zero.
\<close>

theorem C7_scale_and_round:
  assumes "scores \<noteq> []" and "map_throw (loop_weight wu) scores = Inr ws"
  shows "recomputeOverallManual scores wu =
           Inr (if foldl num_add (Fin 0) ws = Fin 0 then Fin 0
                else num_div
                       (Math_round
                          (num_mul
                             (num_mul
                                (num_div
                                   (foldl num_add (Fin 0)
                                      (map2 (\<lambda>s w. num_mul (finite_score s) w) scores ws))
                                   (foldl num_add (Fin 0) ws))
                                (if max_score scores \<le> 1 then Fin 100 else Fin 1))
                             (Fin 10)))
                       (Fin 10)) \<and>
         recomputeOverallManualForItem scores wu = recomputeOverallManual scores wu \<and>
         Math_round (Fin y) = Fin (of_int \<lfloor>y + 1 / 2\<rfloor>) \<and>
         (0 \<le> y \<longrightarrow> Math_round (Fin y) = Fin (round_half_away_from_zero y))"
proof -
  have 1: "recomputeOverallManual scores wu =
           Inr (if foldl num_add (Fin 0) ws = Fin 0 then Fin 0
                else num_div
                       (Math_round
                          (num_mul
                             (num_mul
                                (num_div
                                   (foldl num_add (Fin 0)
                                      (map2 (\<lambda>s w. num_mul (finite_score s) w) scores ws))
                                   (foldl num_add (Fin 0) ws))
                                (if max_score scores \<le> 1 then Fin 100 else Fin 1))
                             (Fin 10)))
                       (Fin 10))"
    using assms(1)
    by (simp add: recomputeOverallManual_def weight_loop_fold [OF assms(2)]
        Math_max_finite_scores)
  have 2: "recomputeOverallManualForItem scores wu = recomputeOverallManual scores wu"
    unfolding recomputeOverallManualForItem_def recomputeOverallManual_def Let_def ..
  have 3: "Math_round (Fin y) = Fin (of_int \<lfloor>y + 1 / 2\<rfloor>)"
    by simp
  have 4: "Math_round (Fin y) = Fin (round_half_away_from_zero y)" if "0 \<le> y"
    using round_half_away_nonneg [OF that] by simp
  from 1 2 3 4 show ?thesis by blast
qed

text \<open>
  Witness for C7: the scores 1 and 0 with no map, of weights 1 and 1 and result 50, and
  \<open>Math.round\<close> at 500.
\<close>

theorem C7_scale_and_round_witness:
  "[\<lparr>criterion = ''a'', score = Fin 1, weight = None, comment = None\<rparr>,
    \<lparr>criterion = ''b'', score = Fin 0, weight = None, comment = None\<rparr>] \<noteq> [] \<and>
   map_throw (loop_weight JUndefined)
     [\<lparr>criterion = ''a'', score = Fin 1, weight = None, comment = None\<rparr>,
      \<lparr>criterion = ''b'', score = Fin 0, weight = None, comment = None\<rparr>] = Inr [Fin 1, Fin 1] \<and>
   recomputeOverallManual
     [\<lparr>criterion = ''a'', score = Fin 1, weight = None, comment = None\<rparr>,
      \<lparr>criterion = ''b'', score = Fin 0, weight = None, comment = None\<rparr>] JUndefined =
     Inr (Fin 50) \<and>
   (0::real) \<le> 500 \<and>
   Math_round (Fin 500) = Fin (round_half_away_from_zero 500)"
proof -
  let ?scores = "[\<lparr>criterion = ''a'', score = Fin 1, weight = None, comment = None\<rparr>,
    \<lparr>criterion = ''b'', score = Fin 0, weight = None, comment = None\<rparr>]"
  have n: "?scores \<noteq> []" by simp
  have w: "map_throw (loop_weight JUndefined) ?scores = Inr [Fin 1, Fin 1]"
    by code_simp
  have r: "recomputeOverallManual ?scores JUndefined = Inr (Fin 50)"
    by code_simp
  from C7_scale_and_round [OF n w, of 500] have "Math_round (Fin 500) = Fin (round_half_away_from_zero 500)"
    by simp
  with n w r show ?thesis by simp
qed

subsection \<open>Batch statistics\<close>





subsection \<open>Batch items\<close>

lemma map_throw_list_all2:
  "map_throw f xs = Inr ys \<Longrightarrow> list_all2 (\<lambda>x y. f x = Inr y) xs ys"
  by (induction xs arbitrary: ys) (auto simp: andThen_eq_Inr)

lemma normBatchItem_shape:
  assumes "normBatchItem wm names it = Inr bi"
  shows "(ok bi \<longrightarrow> error bi = None) \<and> (\<not> ok bi \<longrightarrow> result bi = None) \<and>
         ok bi = Boolean (property it ''ok'') \<and>
         (result bi \<noteq> None) =
           (ok bi \<and> Boolean (property it ''result'') \<and> typeof (property it ''result'') = TObject)"
proof -
  have nn: "\<not> nullish it"
    using assms by (cases "nullish it") (simp_all add: normBatchItem_def)
  let ?guard = "Boolean (property it ''ok'') \<and> Boolean (property it ''result'') \<and>
                typeof (property it ''result'') = TObject"
  show ?thesis
  proof (cases ?guard)
    case True
    with assms nn obtain res where "bi = \<lparr>item_id = toStr_or_empty (property it ''id''),
        item_file = toStr_or_empty (property it ''file''), ok = True, result = Some res,
        error = None\<rparr>"
      by (auto simp: normBatchItem_def Let_def andThen_eq_Inr)
    with True show ?thesis by simp
  next
    case False
    with assms nn have "bi = \<lparr>item_id = toStr_or_empty (property it ''id''),
        item_file = toStr_or_empty (property it ''file''), ok = Boolean (property it ''ok''),
        result = None,
        error = (if \<not> Boolean (property it ''ok'') \<and> toStr_or_empty (property it ''error'') \<noteq> []
                 then toStr (property it ''error'') else None)\<rparr>"
      by (auto simp: normBatchItem_def Let_def andThen_eq_Inr)
    with False show ?thesis by simp
  qed
qed

lemma normalizeBatchResponse_parts:
  assumes "normalizeBatchResponse raw names = Inr b"
  shows "map_throw (normBatchItem (object_or_undefined (property raw ''weights_used'')) names)
           (elems (property raw ''items'')) = Inr (items b) \<and>
         normSummary (property raw ''summary'') = Inr (summary b)"
proof -
  have nn: "\<not> nullish raw"
    using assms by (cases "nullish raw") (simp_all add: normalizeBatchResponse_def)
  have e: "(if Array_isArray v then elems v else []) = elems v" for v
    by (cases v) simp_all
  from assms nn show ?thesis
    by (auto simp: normalizeBatchResponse_def Let_def andThen_eq_Inr e)
qed

lemma normalizeBatchResponse_items:
  assumes "normalizeBatchResponse raw names = Inr b"
  shows "map_throw (normBatchItem (object_or_undefined (property raw ''weights_used'')) names)
           (elems (property raw ''items'')) = Inr (items b)"
  using normalizeBatchResponse_parts [OF assms] by simp

text \<open>
  Claim C5, as stated, fails: a raw item with \<open>ok: true\<close> and no \<open>result\<close> field gives
  a batch item whose \<open>ok\<close> is true and whose result is absent.
\<close>

theorem C5_ok_without_result_counterexample:
  "normalizeBatchResponse (JObj [(''items'', JArr [JObj [(''ok'', JBool True)]])]) [] =
     Inr \<lparr>count = Fin 1, success_count = Fin 0, fail_count = Fin 0, rubric_used = [],
          batch_weights_used = JUndefined, batch_reference_answer = [],
          batch_reference_answer_generated = False,
          items = [\<lparr>item_id = [], item_file = [], ok = True, result = None, error = None\<rparr>],
          summary = None, report_files = None\<rparr>"
  by code_simp

text \<open>
  Claim C5, amended: every batch item that \<open>normalizeBatchResponse\<close> produces satisfies:
  \<open>ok\<close> true implies the error is absent, and \<open>ok\<close> false implies the result is absent.
  Its \<open>ok\<close> is the truthiness of the raw \<open>ok\<close>, and its result is present exactly when
  \<open>ok\<close> is true and the raw \<open>result\<close> field is an object other than \<open>null\<close>; an
  item with \<open>ok\<close> true whose raw result is missing or not an object has no result.
\<close>

theorem C5_batch_item_shape:
  assumes "normalizeBatchResponse raw names = Inr b"
  shows "list_all (\<lambda>bi. (ok bi \<longrightarrow> error bi = None) \<and> (\<not> ok bi \<longrightarrow> result bi = None)) (items b) \<and>
         list_all2
           (\<lambda>it bi. ok bi = Boolean (property it ''ok'') \<and>
                    (result bi \<noteq> None) =
                      (ok bi \<and> Boolean (property it ''result'') \<and>
                       typeof (property it ''result'') = TObject))
           (elems (property raw ''items'')) (items b)"
proof -
  let ?f = "normBatchItem (object_or_undefined (property raw ''weights_used'')) names"
  have l: "list_all2 (\<lambda>it bi. ?f it = Inr bi) (elems (property raw ''items'')) (items b)"
    using map_throw_list_all2 [OF normalizeBatchResponse_items [OF assms]] .
  have 1: "list_all2
           (\<lambda>it bi. ok bi = Boolean (property it ''ok'') \<and>
                    (result bi \<noteq> None) =
                      (ok bi \<and> Boolean (property it ''result'') \<and>
                       typeof (property it ''result'') = TObject))
           (elems (property raw ''items'')) (items b)"
    using l by (rule list_all2_mono) (use normBatchItem_shape in blast)
  have "(ok bi \<longrightarrow> error bi = None) \<and> (\<not> ok bi \<longrightarrow> result bi = None)"
    if "bi \<in> set (items b)" for bi
  proof -
    from that l obtain it where "?f it = Inr bi"
      by (auto simp: list_all2_conv_all_nth in_set_conv_nth)
    from normBatchItem_shape [OF this] show ?thesis by blast
  qed
  then have 2: "list_all (\<lambda>bi. (ok bi \<longrightarrow> error bi = None) \<and> (\<not> ok bi \<longrightarrow> result bi = None)) (items b)"
    by (simp add: list_all_iff)
  from 1 2 show ?thesis by blast
qed

text \<open>
  Witness for C5: three raw items, one \<open>ok\<close> without a result, one \<open>ok\<close> with a result,
  one failed with an error text.
\<close>

theorem C5_batch_item_shape_witness:
  "map_sum id (\<lambda>b. map (\<lambda>bi. (ok bi, result bi \<noteq> None, error bi)) (items b))
     (normalizeBatchResponse
        (JObj [(''items'', JArr
           [JObj [(''ok'', JBool True)],
            JObj [(''ok'', JBool True), (''result'', JObj [(''overall_score'', JNum (Fin 80))])],
            JObj [(''ok'', JBool False), (''error'', JStr ''boom'')]])]) []) =
     Inr [(True, False, None), (True, True, None), (False, False, Some ''boom'')]"
proof -
  let ?raw = "JObj [(''items'', JArr
           [JObj [(''ok'', JBool True)],
            JObj [(''ok'', JBool True), (''result'', JObj [(''overall_score'', JNum (Fin 80))])],
            JObj [(''ok'', JBool False), (''error'', JStr ''boom'')]])]"
  let ?b = "\<lparr>count = Fin 3, success_count = Fin 0, fail_count = Fin 0, rubric_used = [],
          batch_weights_used = JUndefined, batch_reference_answer = [],
          batch_reference_answer_generated = False,
          items = [\<lparr>item_id = [], item_file = [], ok = True, result = None, error = None\<rparr>,
                   \<lparr>item_id = [], item_file = [], ok = True,
                     result = Some \<lparr>item_overall_score = Fin 80, item_weighted_overall = None,
                                    feedback = [], item_rubric_scores = None\<rparr>, error = None\<rparr>,
                   \<lparr>item_id = [], item_file = [], ok = False, result = None,
                     error = Some ''boom''\<rparr>],
          summary = None, report_files = None\<rparr>"
  have r: "normalizeBatchResponse ?raw [] = Inr ?b"
    by code_simp
  from C5_batch_item_shape [OF r] show ?thesis
    by (simp add: r)
qed

subsection \<open>Batch summary\<close>

lemma toNum_finite:
  assumes "toNum v (Fin d) = Inr n"
  shows "\<exists>x. n = Fin x"
proof -
  from assms obtain m where "n = (if Number_isFinite m then m else Fin d)"
    by (auto simp: toNum_def andThen_eq_Inr)
  then show ?thesis by (cases m) simp_all
qed

lemma normalizeBatchResponse_summary:
  assumes "normalizeBatchResponse raw names = Inr b"
  shows "normSummary (property raw ''summary'') = Inr (summary b)"
  using normalizeBatchResponse_parts [OF assms] by simp

text \<open>
  Claim C8: when the raw batch payload carries a summary object (a value of type object
  other than \<open>null\<close>), \<open>normalizeBatchResponse\<close> coerces \<open>avg\<close>, \<open>min\<close>, \<open>max\<close> and
  \<open>stdev\<close> with \<open>toNum\<close> and default 0, unscaled, and \<open>pass_rate\<close> is the coerced value
  times 100, once (one binary64 product: the exact product rounded to binary64); when the
  payload has no summary object the summary is absent.
\<close>

theorem C8_summary_conversion:
  assumes "normalizeBatchResponse raw names = Inr b"
  shows "(if Boolean (property raw ''summary'') \<and> typeof (property raw ''summary'') = TObject
          then \<exists>a mn mx sd p.
                 toNum (property (property raw ''summary'') ''avg'') (Fin 0) = Inr a \<and>
                 toNum (property (property raw ''summary'') ''min'') (Fin 0) = Inr mn \<and>
                 toNum (property (property raw ''summary'') ''max'') (Fin 0) = Inr mx \<and>
                 toNum (property (property raw ''summary'') ''stdev'') (Fin 0) = Inr sd \<and>
                 toNum (property (property raw ''summary'') ''pass_rate'') (Fin 0) = Inr (Fin p) \<and>
                 summary b = Some \<lparr>avg = a, smin = mn, smax = mx, stdev = sd,
                                    pass_rate = num_mul (Fin p) (Fin 100)\<rparr> \<and>
                 num_mul (Fin p) (Fin 100) = round64 (p * 100)
          else summary b = None)"
proof (cases "Boolean (property raw ''summary'') \<and> typeof (property raw ''summary'') = TObject")
  case True
  let ?s = "property raw ''summary''"
  from normalizeBatchResponse_summary [OF assms] True obtain a mn mx sd pr where
    n: "toNum (property ?s ''avg'') (Fin 0) = Inr a"
       "toNum (property ?s ''min'') (Fin 0) = Inr mn"
       "toNum (property ?s ''max'') (Fin 0) = Inr mx"
       "toNum (property ?s ''stdev'') (Fin 0) = Inr sd"
       "toNum (property ?s ''pass_rate'') (Fin 0) = Inr pr"
    and sm: "summary b = Some \<lparr>avg = a, smin = mn, smax = mx, stdev = sd,
                                pass_rate = num_mul pr (Fin 100)\<rparr>"
    by (auto simp: normSummary_def andThen_eq_Inr)
  from toNum_finite [OF n(5)] obtain p where p: "pr = Fin p" by blast
  show ?thesis
    using True n sm by (simp add: p)
next
  case False
  with normalizeBatchResponse_summary [OF assms] show ?thesis
    by (auto simp: normSummary_def)
qed

text \<open>
  Witness for C8: a payload whose summary has an average of 70, a pass rate of 0.75 and
  a \<open>stdev\<close> that is not a number; and a payload with no summary.
\<close>

theorem C8_summary_conversion_witness:
  "map_sum id summary
     (normalizeBatchResponse
        (JObj [(''summary'', JObj [(''avg'', JNum (Fin 70)), (''min'', JStr ''55''),
                                   (''stdev'', JStr ''n/a''),
                                   (''pass_rate'', JNum (Fin (3 / 4)))])]) []) =
     Inr (Some \<lparr>avg = Fin 70, smin = Fin 55, smax = Fin 0, stdev = Fin 0, pass_rate = Fin 75\<rparr>) \<and>
   map_sum id summary (normalizeBatchResponse (JObj [(''summary'', JNull)]) []) = Inr None"
proof -
  let ?raw = "JObj [(''summary'', JObj [(''avg'', JNum (Fin 70)), (''min'', JStr ''55''),
                                   (''stdev'', JStr ''n/a''),
                                   (''pass_rate'', JNum (Fin (3 / 4)))])]"
  let ?b = "\<lparr>count = Fin 0, success_count = Fin 0, fail_count = Fin 0, rubric_used = [],
          batch_weights_used = JUndefined, batch_reference_answer = [],
          batch_reference_answer_generated = False, items = [],
          summary = Some \<lparr>avg = Fin 70, smin = Fin 55, smax = Fin 0, stdev = Fin 0,
                           pass_rate = Fin 75\<rparr>,
          report_files = None\<rparr>"
  let ?c = "\<lparr>count = Fin 0, success_count = Fin 0, fail_count = Fin 0, rubric_used = [],
          batch_weights_used = JUndefined, batch_reference_answer = [],
          batch_reference_answer_generated = False, items = [],
          summary = None, report_files = None\<rparr>"
  have r: "normalizeBatchResponse ?raw [] = Inr ?b"
    by code_simp
  have q: "normalizeBatchResponse (JObj [(''summary'', JNull)]) [] = Inr ?c"
    by code_simp
  from C8_summary_conversion [OF r] C8_summary_conversion [OF q] show ?thesis
    by (simp add: r q)
qed

subsection \<open>Criterion names\<close>

lemma fallback_loop_find:
  "fallback_loop kvs =
     (case find (\<lambda>(k, x). typeof x = TString \<and> k \<noteq> ''comment'') kvs of
        Some (k, x) \<Rightarrow> trim (toStr_or_empty x)
      | None \<Rightarrow> [])"
proof (induction kvs)
  case Nil
  show ?case by simp
next
  case (Cons kv kvs)
  obtain k x where kv: "kv = (k, x)" by (cases kv)
  show ?case
    by (simp add: kv Cons.IH)
qed

lemma trim_empty [simp]: "trim [] = []"
  by (simp add: trim_def)

text \<open>
  Claim C9, as stated, fails: the fallback skips the key \<open>comment\<close> only, so the raw
  item \<open>{feedback: "Good job"}\<close> at index 0 with no user names is named
  \<open>Good job\<close>, not \<open>Item 1\<close>.
\<close>

theorem C9_feedback_name_counterexample:
  "normItem JUndefined [] (JObj [(''feedback'', JStr ''Good job'')]) 0 =
     Inr \<lparr>criterion = ''Good job'', score = Fin 0, weight = Some (Fin 1),
          comment = Some ''Good job''\<rparr>"
  by code_simp

text \<open>
  Claim C9, amended: \<open>normItem\<close> resolves the name of the item at index \<open>idx\<close> by strict
  priority: (1) the trimmed first-present-key value over the name aliases, as \<open>toStr\<close>
  gives it, if not empty; (2) the trimmed user name at index \<open>idx\<close>, if there is one
  and it is not empty; (3) the trimmed value of the first entry of the raw item, in key
  order, whose value is a string and whose key is not \<open>comment\<close> (the other comment
  aliases are not excluded), if not empty; (4) otherwise \<open>Item\<close> and the index plus
  one.
\<close>

theorem C9_name_priority:
  assumes "normItem wm names it idx = Inr r"
  shows "\<exists>v. pick it name_aliases = Inr v \<and>
           criterion r =
             (let fromBackend = trim (toStr_or_empty v);
                  fromUser = trim (if idx < length names then names ! idx else []);
                  fallback =
                    (case find (\<lambda>(k, x). typeof x = TString \<and> k \<noteq> ''comment'')
                            (Object_entries it) of
                       Some (k, x) \<Rightarrow> trim (toStr_or_empty x)
                     | None \<Rightarrow> [])
              in if fromBackend \<noteq> [] then fromBackend
                 else if fromUser \<noteq> [] then fromUser
                 else if fallback \<noteq> [] then fallback
                 else ''Item '' @ nat_to_dec (idx + 1))"
proof -
  from assms obtain v where v: "pick it name_aliases = Inr v"
    by (auto simp: normItem_def andThen_eq_Inr)
  have b: "(case toStr v of Some s \<Rightarrow> trim s | None \<Rightarrow> []) = trim (toStr_or_empty v)"
    by (simp add: toStr_or_empty_def split: option.splits)
  from assms v have "criterion r = item_name names it idx v"
    by (auto simp: normItem_def andThen_eq_Inr)
  then show ?thesis
    using v by (auto simp: item_name_def Let_def str_or_def fallback_loop_find b)
qed

text \<open>
  Witness for C9: the raw item \<open>{weight: 2}\<close> at index 0 with no user names is
  named \<open>Item 1\<close>.
\<close>

theorem C9_name_priority_witness:
  "normItem JUndefined [] (JObj [(''weight'', JNum (Fin 2))]) 0 =
     Inr \<lparr>criterion = ''Item 1'', score = Fin 0, weight = Some (Fin 2), comment = Some []\<rparr> \<and>
   pick (JObj [(''weight'', JNum (Fin 2))]) name_aliases = Inr JUndefined \<and>
   find (\<lambda>(k, x). typeof x = TString \<and> k \<noteq> ''comment'')
     (Object_entries (JObj [(''weight'', JNum (Fin 2))])) = None"
proof -
  have r: "normItem JUndefined [] (JObj [(''weight'', JNum (Fin 2))]) 0 =
     Inr \<lparr>criterion = ''Item 1'', score = Fin 0, weight = Some (Fin 2), comment = Some []\<rparr>"
    by code_simp
  have p: "pick (JObj [(''weight'', JNum (Fin 2))]) name_aliases = Inr JUndefined"
    by code_simp
  from C9_name_priority [OF r] show ?thesis
    using r p by simp
qed

subsection \<open>Field lookup\<close>

lemma own_property_JObj: "own_property (JObj kvs) k = map_of kvs k"
  by (simp add: own_property_def split: option.splits)

lemma map_of_None_iff_keys: "(map_of kvs k = None) = (k \<notin> set (map fst kvs))"
  by (simp add: map_of_eq_None_iff)

lemma pick_JObj:
  "pick (JObj kvs) keys =
     Inr (case find (\<lambda>k. k \<in> set (map fst kvs)) keys of
            Some k \<Rightarrow> property (JObj kvs) k
          | None \<Rightarrow> JUndefined)"
proof (induction keys)
  case Nil
  show ?case by simp
next
  case (Cons k keys)
  show ?case
  proof (cases "k \<in> set (map fst kvs)")
    case True
    then have "map_of kvs k \<noteq> None"
      using map_of_None_iff_keys [of kvs k] by simp
    with True show ?thesis
      by (simp add: js_in_def get_prop_def own_property_JObj)
  next
    case False
    then have "map_of kvs k = None"
      using map_of_None_iff_keys [of kvs k] by simp
    with False show ?thesis
      by (simp add: js_in_def own_property_JObj Cons.IH)
  qed
qed

lemma property_present_defined:
  assumes "k \<in> set (map fst kvs)" and "JUndefined \<notin> set (map snd kvs)"
  shows "property (JObj kvs) k \<noteq> JUndefined"
proof -
  from assms(1) obtain v where v: "map_of kvs k = Some v"
    using map_of_None_iff_keys [of kvs k] by (cases "map_of kvs k") auto
  then have "(k, v) \<in> set kvs" by (rule map_of_SomeD)
  then have "v \<in> set (map snd kvs)" by force
  with assms(2) have "v \<noteq> JUndefined" by blast
  then show ?thesis by (simp add: property_def own_property_JObj v)
qed

lemma pick_JObj_undefined:
  assumes "JUndefined \<notin> set (map snd kvs)"
  shows "(pick (JObj kvs) keys = Inr JUndefined) = (find (\<lambda>k. k \<in> set (map fst kvs)) keys = None)"
proof (cases "find (\<lambda>k. k \<in> set (map fst kvs)) keys")
  case None
  then show ?thesis by (simp add: pick_JObj)
next
  case (Some k)
  then have "k \<in> set (map fst kvs)"
    by (auto simp: find_Some_iff)
  from property_present_defined [OF this assms] Some show ?thesis
    by (simp add: pick_JObj)
qed

text \<open>
  Claim C3, as stated, fails: for the payload \<open>{overall_score: null, total_score: 85}\<close>
  the first-present-key rule gives \<open>null\<close>, which \<open>toNum\<close> turns into 0, while
  \<open>normalizeGradeResponse\<close> passes over the \<open>null\<close> and returns 85.
\<close>

theorem C3_null_overall_score_counterexample:
  "normalizeGradeResponse
     (JObj [(''overall_score'', JNull), (''total_score'', JNum (Fin 85))]) [] =
     Inr \<lparr>overall_score = Fin 85, overall_comment = [], rubric_scores = Some [],
          reference_answer = None, reference_answer_generated = Some False,
          weighted_overall = None, weights_used = JUndefined\<rparr> \<and>
   pick (JObj [(''overall_score'', JNull), (''total_score'', JNum (Fin 85))])
     [''overall_score'', ''total_score'', ''score''] = Inr JNull \<and>
   toNum JNull (Fin 0) = Inr (Fin 0)"
  by code_simp

text \<open>
  Claim C3, amended: on an object, \<open>pick\<close> returns the value of the first alias that is
  a key of the object, whatever that value is (0, false, the empty string and \<open>null\<close>
  included), and \<open>undefined\<close> when no alias is a key; on an object that holds no
  \<open>undefined\<close> value it returns \<open>undefined\<close> only then. \<open>normalizeGradeResponse\<close>
  resolves \<open>overall_score\<close> differently: it takes the first of \<open>raw.overall_score\<close>,
  \<open>raw.total_score\<close>, \<open>raw.score\<close> that is neither \<open>null\<close> nor \<open>undefined\<close>, and
  coerces it with \<open>toNum\<close> and default 0.
\<close>

theorem C3_pick_and_overall_score:
  "pick (JObj kvs) keys =
     Inr (case find (\<lambda>k. k \<in> set (map fst kvs)) keys of
            Some k \<Rightarrow> property (JObj kvs) k
          | None \<Rightarrow> JUndefined) \<and>
   (JUndefined \<notin> set (map snd kvs) \<longrightarrow>
      (pick (JObj kvs) keys = Inr JUndefined) =
        (find (\<lambda>k. k \<in> set (map fst kvs)) keys = None)) \<and>
   (normalizeGradeResponse raw names = Inr g \<longrightarrow>
      toNum (if \<not> nullish (property raw ''overall_score'') then property raw ''overall_score''
             else if \<not> nullish (property raw ''total_score'') then property raw ''total_score''
             else property raw ''score'') (Fin 0) = Inr (overall_score g))"
proof -
  have "toNum (if \<not> nullish (property raw ''overall_score'') then property raw ''overall_score''
             else if \<not> nullish (property raw ''total_score'') then property raw ''total_score''
             else property raw ''score'') (Fin 0) = Inr (overall_score g)"
    if r: "normalizeGradeResponse raw names = Inr g"
  proof -
    have nn: "\<not> nullish raw"
      using r by (cases "nullish raw") (simp_all add: normalizeGradeResponse_def)
    have c: "coalesce a (coalesce b c) =
               (if \<not> nullish a then a else if \<not> nullish b then b else c)" for a b c
      by (simp add: coalesce_def)
    from r nn obtain n where
      n: "toNum (coalesce (property raw ''overall_score'')
                  (coalesce (property raw ''total_score'') (property raw ''score''))) (Fin 0) = Inr n"
      and g: "overall_score g = n"
      by (simp add: normalizeGradeResponse_def Let_def andThen_eq_Inr) force
    from n g show ?thesis
      by (simp only: c)
  qed
  then show ?thesis
    using pick_JObj [of kvs keys] pick_JObj_undefined [of kvs keys] by blast
qed

text \<open>
  Witness for C3: \<open>pick\<close> on \<open>{score: 0}\<close> returns 0 and on \<open>{comment: null}\<close> returns
  \<open>null\<close>; the payload \<open>{overall_score: 0, total_score: 85}\<close> has the overall score 0.
\<close>

theorem C3_pick_and_overall_score_witness:
  "pick (JObj [(''score'', JNum (Fin 0))]) [''points'', ''score''] = Inr (JNum (Fin 0)) \<and>
   JUndefined \<notin> set (map snd [(''score'', JNum (Fin 0))]) \<and>
   find (\<lambda>k. k \<in> set (map fst [(''score'', JNum (Fin 0))])) [''points'', ''score''] \<noteq> None \<and>
   normalizeGradeResponse
     (JObj [(''overall_score'', JNum (Fin 0)), (''total_score'', JNum (Fin 85))]) [] =
     Inr \<lparr>overall_score = Fin 0, overall_comment = [], rubric_scores = Some [],
          reference_answer = None, reference_answer_generated = Some False,
          weighted_overall = None, weights_used = JUndefined\<rparr> \<and>
   toNum (property (JObj [(''overall_score'', JNum (Fin 0)), (''total_score'', JNum (Fin 85))])
            ''overall_score'') (Fin 0) = Inr (Fin 0)"
proof -
  let ?raw = "JObj [(''overall_score'', JNum (Fin 0)), (''total_score'', JNum (Fin 85))]"
  let ?g = "\<lparr>overall_score = Fin 0, overall_comment = [], rubric_scores = Some [],
          reference_answer = None, reference_answer_generated = Some False,
          weighted_overall = None, weights_used = JUndefined\<rparr>"
  have r: "normalizeGradeResponse ?raw [] = Inr ?g"
    by code_simp
  have p: "property ?raw ''overall_score'' = JNum (Fin 0)"
    by code_simp
  from C3_pick_and_overall_score [of "[(''score'', JNum (Fin 0))]" "[''points'', ''score'']" ?raw "[]" ?g]
  have a: "pick (JObj [(''score'', JNum (Fin 0))]) [''points'', ''score''] = Inr (JNum (Fin 0))"
    by (simp add: property_def own_property_def)
  from C3_pick_and_overall_score [of "[(''score'', JNum (Fin 0))]" "[''points'', ''score'']" ?raw "[]" ?g] r
  have b: "toNum (property ?raw ''overall_score'') (Fin 0) = Inr (Fin 0)"
    by (simp add: p)
  from a b r show ?thesis by simp
qed

subsection \<open>Idempotence\<close>

lemma trim_ends: "trim s = [] \<or> (\<not> is_ws (hd (trim s)) \<and> \<not> is_ws (last (trim s)))"
proof (cases "trim s = []")
  case True
  then show ?thesis by simp
next
  case False
  define u where "u = dropWhile is_ws s"
  define v where "v = dropWhile is_ws (rev u)"
  have t: "trim s = rev v" by (simp add: trim_def u_def v_def)
  from False t have v: "v \<noteq> []" by simp
  then have u: "u \<noteq> []" by (auto simp: v_def)
  from v have hv: "\<not> is_ws (hd v)" unfolding v_def by (rule hd_dropWhile)
  from u have hu: "\<not> is_ws (hd u)" unfolding u_def by (rule hd_dropWhile)
  have "rev u = takeWhile is_ws (rev u) @ v" by (simp add: v_def)
  then have "last (rev u) = last (takeWhile is_ws (rev u) @ v)" by simp
  also have "\<dots> = last v" using v by simp
  finally have "last v = hd u" using u by (simp add: last_rev)
  with hu hv v show ?thesis by (simp add: t hd_rev last_rev)
qed

lemma trim_fixed:
  assumes "t = [] \<or> (\<not> is_ws (hd t) \<and> \<not> is_ws (last t))"
  shows "trim t = t"
proof (cases "t = []")
  case True
  then show ?thesis by (simp add: trim_def)
next
  case False
  with assms have h: "\<not> is_ws (hd t)" and l: "\<not> is_ws (last t)" by auto
  from h False have 1: "dropWhile is_ws t = t" by (cases t) simp_all
  from l False have "\<not> is_ws (hd (rev t))" by (simp add: hd_rev)
  with False have 2: "dropWhile is_ws (rev t) = rev t" by (cases "rev t") simp_all
  show ?thesis by (simp add: trim_def 1 2)
qed

lemma trim_idem: "trim (trim s) = trim s"
  using trim_ends [of s] by (rule trim_fixed)

lemma digit_char_not_ws: "\<not> is_ws (digit_char d)"
proof -
  have "''0123456789'' ! (d mod 10) \<in> set ''0123456789''"
    by (rule nth_mem) simp
  then have "digit_char d \<in> set ''0123456789''"
    by (simp only: digit_char_def)
  then show ?thesis
    by (auto simp: is_ws_def)
qed

lemma nat_to_dec_last: "nat_to_dec n \<noteq> [] \<and> last (nat_to_dec n) = digit_char n"
  by (subst (1 2) nat_to_dec.simps) simp

lemma item_name_fixed: "trim (''Item '' @ nat_to_dec n) = ''Item '' @ nat_to_dec n"
proof (rule trim_fixed)
  have "\<not> is_ws (last (''Item '' @ nat_to_dec n))"
    using nat_to_dec_last [of n] digit_char_not_ws [of n] by simp
  moreover have "\<not> is_ws (hd (''Item '' @ nat_to_dec n))"
    by (simp add: is_ws_def)
  ultimately show "''Item '' @ nat_to_dec n = [] \<or>
      (\<not> is_ws (hd (''Item '' @ nat_to_dec n)) \<and> \<not> is_ws (last (''Item '' @ nat_to_dec n)))"
    by blast
qed

lemma item_name_fixed_point:
  "item_name names it idx v \<noteq> [] \<and> trim (item_name names it idx v) = item_name names it idx v"
proof -
  have n: "''Item '' @ nat_to_dec (idx + 1) \<noteq> []" by simp
  have f: "trim (fallback_loop kvs) = fallback_loop kvs" for kvs
    by (simp add: fallback_loop_find trim_idem split: option.splits prod.splits)
  have b: "trim (case toStr v of Some s \<Rightarrow> trim s | None \<Rightarrow> []) =
           (case toStr v of Some s \<Rightarrow> trim s | None \<Rightarrow> [])"
    by (simp add: trim_idem split: option.splits)
  show ?thesis
    unfolding item_name_def Let_def str_or_def
    using n f b item_name_fixed [of "idx + 1"] trim_idem
    by (simp del: append.simps)
qed

lemma toNum_JNum_finite: "Number_isFinite n \<Longrightarrow> toNum (JNum n) d = Inr n"
  by (simp add: toNum_def)

lemma toNum_result_finite:
  assumes "toNum v (Fin d) = Inr n"
  shows "Number_isFinite n"
  using toNum_finite [OF assms] by auto

lemma override_weight_cases:
  assumes "override_weight wm c w0 = Inr w"
  shows "w = w0 \<or> (\<exists>v. Boolean wm \<and> js_in c wm = Inr True \<and> get_prop wm c = Inr v \<and>
                       toNum v NaN = Inr w \<and> Number_isFinite w)"
proof (cases "(if Boolean wm then js_in c wm else Inr False) = Inr True")
  case True
  then have b: "Boolean wm" and i: "js_in c wm = Inr True"
    by (simp_all split: if_splits)
  from assms b i obtain v w' where v: "get_prop wm c = Inr v" and w': "toNum v NaN = Inr w'"
    and w: "w = (if Number_isFinite w' then w' else w0)"
    by (auto simp: override_weight_def andThen_eq_Inr)
  show ?thesis
  proof (cases "Number_isFinite w'")
    case True
    with b i v w' w show ?thesis by auto
  next
    case False
    with w show ?thesis by simp
  qed
next
  case False
  with assms have "w = w0"
    by (auto simp: override_weight_def andThen_eq_Inr)
  then show ?thesis by simp
qed

lemma override_weight_finite:
  assumes "override_weight wm c w0 = Inr w" and "Number_isFinite w0"
  shows "Number_isFinite w"
  using override_weight_cases [OF assms(1)] assms(2) by auto

lemma override_weight_again:
  assumes "override_weight wm c w0 = Inr w"
  shows "override_weight wm c w = Inr w"
  using override_weight_cases [OF assms]
proof
  assume "w = w0"
  with assms show ?thesis by simp
next
  assume "\<exists>v. Boolean wm \<and> js_in c wm = Inr True \<and> get_prop wm c = Inr v \<and>
              toNum v NaN = Inr w \<and> Number_isFinite w"
  then show ?thesis
    by (auto simp: override_weight_def)
qed

lemma own_property_rubric:
  "own_property (rubric_as_loose s) k =
     map_of [(''criterion'', JStr (criterion s)), (''score'', JNum (score s)),
             (''weight'', opt_num (weight s)), (''comment'', opt_str (comment s))] k"
  unfolding rubric_as_loose_def by (rule own_property_JObj)

lemma is_object_rubric: "is_object (rubric_as_loose s)"
  by (simp add: rubric_as_loose_def)

lemma not_nullish_rubric: "\<not> nullish (rubric_as_loose s)"
  by (simp add: rubric_as_loose_def)

lemma pick_rubric_name: "pick (rubric_as_loose s) name_aliases = Inr (JStr (criterion s))"
  by (simp add: name_aliases_def js_in_def get_prop_def property_def own_property_rubric
      is_object_rubric not_nullish_rubric)

lemma pick_rubric_weight: "pick (rubric_as_loose s) weight_aliases = Inr (opt_num (weight s))"
  by (simp add: weight_aliases_def js_in_def get_prop_def property_def own_property_rubric
      is_object_rubric not_nullish_rubric)

lemma pick_rubric_score: "pick (rubric_as_loose s) score_aliases = Inr (JNum (score s))"
  by (simp add: score_aliases_def js_in_def get_prop_def property_def own_property_rubric
      is_object_rubric not_nullish_rubric)

lemma pick_rubric_comment: "pick (rubric_as_loose s) comment_aliases = Inr (opt_str (comment s))"
  by (simp add: comment_aliases_def js_in_def get_prop_def property_def own_property_rubric
      is_object_rubric not_nullish_rubric)

lemma normItem_idempotent:
  assumes "normItem wm names it idx = Inr r"
  shows "normItem wm names (rubric_as_loose r) idx = Inr r"
proof -
  from assms obtain v weightRaw weight0 wt scoreRaw sc commentRaw where
    v: "pick it name_aliases = Inr v" and
    w0: "toNum weightRaw (Fin 1) = Inr weight0" and
    wt: "override_weight wm (item_name names it idx v) weight0 = Inr wt" and
    sc: "toNum scoreRaw (Fin 0) = Inr sc" and
    r: "r = \<lparr>criterion = item_name names it idx v, score = sc, weight = Some wt,
             comment = Some (toStr_or_empty commentRaw)\<rparr>"
    unfolding normItem_def andThen_eq_Inr by blast
  let ?c = "item_name names it idx v"
  have c: "?c \<noteq> []" "trim ?c = ?c"
    using item_name_fixed_point [of names it idx v] by simp_all
  have name: "item_name names (rubric_as_loose r) idx (JStr ?c) = ?c"
    using c by (simp add: item_name_def str_or_def)
  have fw0: "Number_isFinite weight0" using w0 by (rule toNum_result_finite)
  have fwt: "Number_isFinite wt" using wt fw0 by (rule override_weight_finite)
  have fsc: "Number_isFinite sc" using sc by (rule toNum_result_finite)
  have wt2: "override_weight wm ?c wt = Inr wt" using wt by (rule override_weight_again)
  have cr: "criterion r = ?c" and sr: "score r = sc" and wr: "weight r = Some wt"
    and mr: "comment r = Some (toStr_or_empty commentRaw)"
    by (simp_all add: r)
  have "normItem wm names (rubric_as_loose r) idx =
        Inr \<lparr>criterion = ?c, score = sc, weight = Some wt,
             comment = Some (toStr_or_empty commentRaw)\<rparr>"
    unfolding normItem_def pick_rubric_name pick_rubric_weight pick_rubric_score
      pick_rubric_comment cr sr wr mr
    by (simp add: name opt_num_def opt_str_def toNum_JNum_finite fwt fsc wt2 toStr_or_empty_def)
  then show ?thesis by (simp only: r)
qed

lemma map_idx_idempotent:
  assumes "map_idx (normItem wm names) xs i = Inr rs"
  shows "map_idx (normItem wm names) (map rubric_as_loose rs) i = Inr rs"
  using assms
proof (induction xs arbitrary: i rs)
  case Nil
  then show ?case by simp
next
  case (Cons x xs)
  from Cons.prems obtain r rs' where
    r: "normItem wm names x i = Inr r" and
    rs': "map_idx (normItem wm names) xs (Suc i) = Inr rs'" and
    rs: "rs = r # rs'"
    by (auto simp: andThen_eq_Inr)
  show ?case
    by (simp add: rs normItem_idempotent [OF r] Cons.IH [OF rs'])
qed

lemma own_property_grade:
  "own_property (grade_as_loose g) k =
     map_of [(''overall_score'', JNum (overall_score g)),
           (''overall_comment'', JStr (overall_comment g)),
           (''rubric_scores'',
              (case rubric_scores g of Some rs \<Rightarrow> JArr (map rubric_as_loose rs)
               | None \<Rightarrow> JUndefined)),
           (''reference_answer'', opt_str (reference_answer g)),
           (''reference_answer_generated'', opt_bool (reference_answer_generated g)),
           (''weighted_overall'', opt_num (weighted_overall g)),
           (''weights_used'', weights_used g)] k"
  unfolding grade_as_loose_def by (rule own_property_JObj)

lemma grade_as_loose_object: "is_object (grade_as_loose g)" "\<not> nullish (grade_as_loose g)"
  by (simp_all add: grade_as_loose_def)

lemma property_grade:
  "property (grade_as_loose g) ''overall_score'' = JNum (overall_score g)"
  "property (grade_as_loose g) ''rubric_scores'' =
     (case rubric_scores g of Some rs \<Rightarrow> JArr (map rubric_as_loose rs) | None \<Rightarrow> JUndefined)"
  "property (grade_as_loose g) ''reference_answer_generated'' =
     opt_bool (reference_answer_generated g)"
  "property (grade_as_loose g) ''weighted_overall'' = opt_num (weighted_overall g)"
  "property (grade_as_loose g) ''weights_used'' = weights_used g"
  by (simp_all add: property_def own_property_grade)

lemma pick_grade_comment:
  "pick (grade_as_loose g) [''feedback'', ''overall_comment'', ''summary'', ''comment''] =
     Inr (JStr (overall_comment g))"
  by (simp add: js_in_def get_prop_def property_def own_property_grade grade_as_loose_object)

lemma pick_grade_reference:
  "pick (grade_as_loose g) [''reference_answer'', ''reference'', ''ref_answer''] =
     Inr (opt_str (reference_answer g))"
  by (simp add: js_in_def get_prop_def property_def own_property_grade grade_as_loose_object)

lemma object_or_undefined_idem: "object_or_undefined (object_or_undefined v) = object_or_undefined v"
  by (simp add: object_or_undefined_def)

lemma toStr_opt_str: "toStr (opt_str (toStr v)) = toStr v"
  by (cases "toStr v") (simp_all add: opt_str_def)

lemma number_or_undefined_opt_num:
  "number_or_undefined (opt_num (number_or_undefined v)) = number_or_undefined v"
  by (cases v) (simp_all add: opt_num_def)

text \<open>
  Claim C10: \<open>normalizeGradeResponse\<close> is idempotent. Whenever it returns a canonical
  result for a raw payload and a list of user names, normalizing that result (the
  object the function built, read as a raw payload) with the same names returns the same
  result.
\<close>

theorem C10_normalize_idempotent:
  assumes "normalizeGradeResponse raw names = Inr g"
  shows "normalizeGradeResponse (grade_as_loose g) names = Inr g"
proof -
  have nn: "\<not> nullish raw"
    using assms by (cases "nullish raw") (simp_all add: normalizeGradeResponse_def)
  define wm where "wm = object_or_undefined (property raw ''weights_used'')"
  define itemsSrc where "itemsSrc =
     (if Array_isArray (property raw ''rubric_scores'') then elems (property raw ''rubric_scores'')
      else if Array_isArray (property raw ''rubric'') then elems (property raw ''rubric'')
      else if Array_isArray (property raw ''details'') then elems (property raw ''details'')
      else [])"
  from assms nn obtain overall commentRaw scores refRaw where
    ov: "toNum (coalesce (property raw ''overall_score'')
                 (coalesce (property raw ''total_score'') (property raw ''score''))) (Fin 0)
           = Inr overall" and
    sc: "map_idx (normItem wm names) itemsSrc 0 = Inr scores" and
    g: "g = \<lparr>overall_score = overall,
             overall_comment = toStr_or_empty commentRaw,
             rubric_scores = Some scores,
             reference_answer = toStr refRaw,
             reference_answer_generated =
               Some (Boolean (coalesce (property raw ''reference_answer_generated'')
                                (property raw ''generated_reference''))),
             weighted_overall = number_or_undefined (property raw ''weighted_overall''),
             weights_used = wm\<rparr>"
    unfolding normalizeGradeResponse_def Let_def wm_def [symmetric] itemsSrc_def [symmetric]
    by (simp add: andThen_eq_Inr) blast
  have fo: "Number_isFinite overall" using ov by (rule toNum_result_finite)
  have wm2: "object_or_undefined wm = wm"
    unfolding wm_def by (rule object_or_undefined_idem)
  have sc2: "map_idx (normItem wm names) (map rubric_as_loose scores) 0 = Inr scores"
    using sc by (rule map_idx_idempotent)
  have fields: "overall_score g = overall" "overall_comment g = toStr_or_empty commentRaw"
    "rubric_scores g = Some scores" "reference_answer g = toStr refRaw"
    "reference_answer_generated g =
       Some (Boolean (coalesce (property raw ''reference_answer_generated'')
                        (property raw ''generated_reference'')))"
    "weighted_overall g = number_or_undefined (property raw ''weighted_overall'')"
    "weights_used g = wm"
    by (simp_all add: g)
  have "normalizeGradeResponse (grade_as_loose g) names =
        Inr \<lparr>overall_score = overall,
             overall_comment = toStr_or_empty commentRaw,
             rubric_scores = Some scores,
             reference_answer = toStr refRaw,
             reference_answer_generated =
               Some (Boolean (coalesce (property raw ''reference_answer_generated'')
                                (property raw ''generated_reference''))),
             weighted_overall = number_or_undefined (property raw ''weighted_overall''),
             weights_used = wm\<rparr>"
    unfolding normalizeGradeResponse_def Let_def property_grade pick_grade_comment
      pick_grade_reference fields
    by (simp add: grade_as_loose_object wm2 sc2 coalesce_def toNum_JNum_finite fo
        toStr_or_empty_def toStr_opt_str number_or_undefined_opt_num opt_bool_def)
  then show ?thesis by (simp only: g)
qed

text \<open>
  Witness for C10: a payload under alias keys, with a name to trim, a weight given as a
  string and overridden by the weight map, and an item named by the user.
\<close>

theorem C10_normalize_idempotent_witness:
  "normalizeGradeResponse
     (JObj [(''total_score'', JStr ''85''), (''feedback'', JStr ''Solid work''),
            (''rubric'', JArr [JObj [(''name'', JStr '' Clarity ''),
                                     (''points'', JNum (Fin (1 / 2))), (''w'', JStr ''2'')],
                               JObj [(''score'', JNum (Fin 1))]]),
            (''weights_used'', JObj [(''Clarity'', JNum (Fin 3))])])
     [[], ''Method''] =
     Inr \<lparr>overall_score = Fin 85, overall_comment = ''Solid work'',
          rubric_scores =
            Some [\<lparr>criterion = ''Clarity'', score = Fin (1 / 2), weight = Some (Fin 3),
                    comment = Some []\<rparr>,
                  \<lparr>criterion = ''Method'', score = Fin 1, weight = Some (Fin 1),
                    comment = Some []\<rparr>],
          reference_answer = None, reference_answer_generated = Some False,
          weighted_overall = None, weights_used = JObj [(''Clarity'', JNum (Fin 3))]\<rparr> \<and>
   normalizeGradeResponse
     (grade_as_loose
        \<lparr>overall_score = Fin 85, overall_comment = ''Solid work'',
          rubric_scores =
            Some [\<lparr>criterion = ''Clarity'', score = Fin (1 / 2), weight = Some (Fin 3),
                    comment = Some []\<rparr>,
                  \<lparr>criterion = ''Method'', score = Fin 1, weight = Some (Fin 1),
                    comment = Some []\<rparr>],
          reference_answer = None, reference_answer_generated = Some False,
          weighted_overall = None, weights_used = JObj [(''Clarity'', JNum (Fin 3))]\<rparr>)
     [[], ''Method''] =
     Inr \<lparr>overall_score = Fin 85, overall_comment = ''Solid work'',
          rubric_scores =
            Some [\<lparr>criterion = ''Clarity'', score = Fin (1 / 2), weight = Some (Fin 3),
                    comment = Some []\<rparr>,
                  \<lparr>criterion = ''Method'', score = Fin 1, weight = Some (Fin 1),
                    comment = Some []\<rparr>],
          reference_answer = None, reference_answer_generated = Some False,
          weighted_overall = None, weights_used = JObj [(''Clarity'', JNum (Fin 3))]\<rparr>"
proof -
  have r: "normalizeGradeResponse
     (JObj [(''total_score'', JStr ''85''), (''feedback'', JStr ''Solid work''),
            (''rubric'', JArr [JObj [(''name'', JStr '' Clarity ''),
                                     (''points'', JNum (Fin (1 / 2))), (''w'', JStr ''2'')],
                               JObj [(''score'', JNum (Fin 1))]]),
            (''weights_used'', JObj [(''Clarity'', JNum (Fin 3))])])
     [[], ''Method''] =
     Inr \<lparr>overall_score = Fin 85, overall_comment = ''Solid work'',
          rubric_scores =
            Some [\<lparr>criterion = ''Clarity'', score = Fin (1 / 2), weight = Some (Fin 3),
                    comment = Some []\<rparr>,
                  \<lparr>criterion = ''Method'', score = Fin 1, weight = Some (Fin 1),
                    comment = Some []\<rparr>],
          reference_answer = None, reference_answer_generated = Some False,
          weighted_overall = None, weights_used = JObj [(''Clarity'', JNum (Fin 3))]\<rparr>"
    by code_simp
  from r C10_normalize_idempotent [OF r] show ?thesis
    by (rule conjI)
qed

end
